theory Spec2Isabelle
  imports Complex_Main
begin

section \<open>Fitness tracker: workout sessions and exercises\<close>

text \<open>
  A shallow embedding of \<^verbatim>\<open>src/db/tables.ts\<close>: the two tables declared with
  \<^verbatim>\<open>defineTable\<close> and the seven actions of \<^verbatim>\<open>server\<close>.

  \<^item> A row is a record; an optional column (\<^verbatim>\<open>optional: true\<close>) and an optional
    input field (\<^verbatim>\<open>.optional()\<close>) are \<open>option\<close>s, \<open>None\<close> standing for
    \<^verbatim>\<open>undefined\<close> / SQL NULL.
  \<^item> A date is the number of milliseconds since the epoch. A number that the input schema
    constrains with \<^verbatim>\<open>.int()\<close> is an \<open>int\<close>, any other number a \<open>real\<close> (the
    non-finite values of a JavaScript number are not represented).
  \<^item> The store is the pair of tables, each the list of its rows in the order the store
    enumerates them. Every handler takes the store and returns it, also when it fails.
  \<^item> \<^verbatim>\<open>new Date()\<close> and \<^verbatim>\<open>randomUUID()\<close> are read from an environment record: each
    handler calls either at most once.
  \<^item> A thrown error is the left summand of the result.
  \<^item> A SELECT decodes the rows it returns: it throws on a row that holds an integer
    outside JavaScript's safe range, and a text is returned up to its first NUL.
\<close>

subsection \<open>Tables\<close>

type_synonym date = int

record WorkoutSession =
  s_id :: string
  s_userId :: string
  s_title :: "string option"
  s_workoutDate :: date
  s_startTime :: "date option"
  s_endTime :: "date option"
  s_workoutType :: "string option"
  s_notes :: "string option"
  s_totalDurationMinutes :: "int option"
  s_totalCalories :: "int option"
  s_createdAt :: date
  s_updatedAt :: date

record WorkoutExercise =
  e_id :: string
  e_sessionId :: string
  e_userId :: string
  e_name :: string
  e_category :: "string option"
  e_sets :: "int option"
  e_repsPerSet :: "int option"
  e_weightPerRep :: "real option"
  e_distanceKm :: "real option"
  e_durationMinutes :: "real option"
  e_caloriesBurned :: "real option"
  e_notes :: "string option"
  e_createdAt :: date

record Db =
  WorkoutSessions :: "WorkoutSession list"
  WorkoutExercises :: "WorkoutExercise list"

subsection \<open>Errors, context, environment\<close>

datatype ErrorCode = UNAUTHORIZED | NOT_FOUND

text \<open>
  \<open>ActionError\<close> is what the handlers throw themselves. \<open>ActionInputError\<close> is the
  rejection of an input that does not parse against the action's schema, and
  \<open>ConstraintError\<close> the store's refusal of a statement that would break a declared
  key (\<^verbatim>\<open>primaryKey: true\<close>, \<^verbatim>\<open>references\<close>). \<open>RangeError\<close> is thrown by a
  SELECT whose answer holds an integer that is not a safe JavaScript integer, and
  \<open>MismatchError\<close> is the store's refusal of a LIMIT or OFFSET that is no 64-bit integer.
\<close>

datatype Failure =
  ActionError ErrorCode string | ActionInputError | ConstraintError | RangeError | MismatchError

record User =
  user_id :: string

record Locals =
  user :: "User option"

record ActionAPIContext =
  locals :: "Locals option"

record Env =
  new_Date :: date
  randomUUID :: string

type_synonym 'a result = "(Failure + 'a) \<times> Db"

definition signed_in :: "User \<Rightarrow> ActionAPIContext" where
  "signed_in u = \<lparr>locals = Some \<lparr>user = Some u\<rparr>\<rparr>"

definition requireUser :: "ActionAPIContext \<Rightarrow> Failure + User" where
  "requireUser context =
     (case locals context of
        None \<Rightarrow> Inl (ActionError UNAUTHORIZED ''You must be signed in to perform this action.'')
      | Some l \<Rightarrow>
          (case user l of
             None \<Rightarrow> Inl (ActionError UNAUTHORIZED ''You must be signed in to perform this action.'')
           | Some u \<Rightarrow> Inr u))"

subsection \<open>Store statements\<close>

text \<open>
  \<^verbatim>\<open>const [x] = await db.select()...\<close> binds the first row of the answer, or
  \<^verbatim>\<open>undefined\<close> when the answer is empty.
\<close>

fun first :: "'a list \<Rightarrow> 'a option" where
  "first [] = None"
| "first (x # _) = Some x"

definition session_ids :: "Db \<Rightarrow> string list" where
  "session_ids db = map s_id (WorkoutSessions db)"

definition exercise_ids :: "Db \<Rightarrow> string list" where
  "exercise_ids db = map e_id (WorkoutExercises db)"

fun optional :: "('a \<Rightarrow> bool) \<Rightarrow> 'a option \<Rightarrow> bool" where
  "optional p None = True"
| "optional p (Some v) = p v"

text \<open>
  Decoding a row. The columns declared \<^verbatim>\<open>column.number\<close> have integer affinity: a
  number with an integer value is stored as an integer, and the client refuses to hand
  back an integer beyond \<open>2^53 - 1\<close> in magnitude as a JavaScript number.
\<close>

definition safe_integer :: "int \<Rightarrow> bool" where
  "safe_integer n \<longleftrightarrow> \<bar>n\<bar> < 2 ^ 53"

definition safe_number :: "real \<Rightarrow> bool" where
  "safe_number x \<longleftrightarrow> \<not> (of_int \<lfloor>x\<rfloor> = x \<and> 2 ^ 53 \<le> \<bar>x\<bar>)"

definition session_readable :: "WorkoutSession \<Rightarrow> bool" where
  "session_readable s \<longleftrightarrow>
     optional safe_integer (s_totalDurationMinutes s) \<and> optional safe_integer (s_totalCalories s)"

definition exercise_readable :: "WorkoutExercise \<Rightarrow> bool" where
  "exercise_readable e \<longleftrightarrow>
     optional safe_integer (e_sets e) \<and> optional safe_integer (e_repsPerSet e) \<and>
     optional safe_number (e_weightPerRep e) \<and> optional safe_number (e_distanceKm e) \<and>
     optional safe_number (e_durationMinutes e) \<and> optional safe_number (e_caloriesBurned e)"

definition text_read :: "string \<Rightarrow> string" where
  "text_read t = takeWhile (\<lambda>c. c \<noteq> CHR 0x00) t"

definition session_read :: "WorkoutSession \<Rightarrow> WorkoutSession" where
  "session_read s =
     s\<lparr>s_id := text_read (s_id s),
       s_userId := text_read (s_userId s),
       s_title := map_option text_read (s_title s),
       s_workoutType := map_option text_read (s_workoutType s),
       s_notes := map_option text_read (s_notes s)\<rparr>"

definition exercise_read :: "WorkoutExercise \<Rightarrow> WorkoutExercise" where
  "exercise_read e =
     e\<lparr>e_id := text_read (e_id e),
       e_sessionId := text_read (e_sessionId e),
       e_userId := text_read (e_userId e),
       e_name := text_read (e_name e),
       e_category := map_option text_read (e_category e),
       e_notes := map_option text_read (e_notes e)\<rparr>"

text \<open>
  \<^verbatim>\<open>select().from(T).where(p)\<close>: the rows that satisfy \<open>p\<close> as stored, decoded.
\<close>

definition select_sessions ::
  "(WorkoutSession \<Rightarrow> bool) \<Rightarrow> Db \<Rightarrow> Failure + WorkoutSession list" where
  "select_sessions p db =
     (let rows = filter p (WorkoutSessions db)
      in if list_all session_readable rows then Inr (map session_read rows) else Inl RangeError)"

definition select_exercises ::
  "(WorkoutExercise \<Rightarrow> bool) \<Rightarrow> Db \<Rightarrow> Failure + WorkoutExercise list" where
  "select_exercises p db =
     (let rows = filter p (WorkoutExercises db)
      in if list_all exercise_readable rows then Inr (map exercise_read rows) else Inl RangeError)"

text \<open>
  A JavaScript number that holds an integer: \<open>js_number n\<close> is the double nearest to
  \<open>n\<close> (ties to even), which is \<open>n\<close> itself up to \<open>2^53\<close>. Magnitudes beyond the range
  of a double are not represented. \<open>mantissa_shift\<close> counts the low bits that do
  not fit into the 53 bits of a double's mantissa.
\<close>

fun mantissa_shift :: "nat \<Rightarrow> int \<Rightarrow> nat" where
  "mantissa_shift 0 m = 0"
| "mantissa_shift (Suc f) m = (if m < 2 ^ 53 then 0 else Suc (mantissa_shift f (m div 2)))"

definition js_number :: "int \<Rightarrow> int" where
  "js_number n =
     (if \<bar>n\<bar> < 2 ^ 53 then n
      else let e = mantissa_shift 1024 \<bar>n\<bar>;
               q = \<bar>n\<bar> div 2 ^ e;
               r = \<bar>n\<bar> mod 2 ^ e;
               h = 2 ^ (e - 1);
               m = (if h < r \<or> (r = h \<and> odd q) then q + 1 else q)
           in sgn n * m * 2 ^ e)"

text \<open>
  \<^verbatim>\<open>select().from(T).where(p).limit(n).offset(k)\<close>. The store takes a bound number
  that has an integer value below \<open>2^63\<close> in magnitude as that integer and refuses any
  other; a negative LIMIT is no limit and a negative OFFSET is no offset. Only the rows
  of the page are decoded.
\<close>

definition select_sessions_page ::
  "(WorkoutSession \<Rightarrow> bool) \<Rightarrow> int \<Rightarrow> int \<Rightarrow> Db \<Rightarrow> Failure + WorkoutSession list" where
  "select_sessions_page p n k db =
     (if 2 ^ 63 \<le> \<bar>n\<bar> \<or> 2 ^ 63 \<le> \<bar>k\<bar> then Inl MismatchError
      else let matching = drop (nat k) (filter p (WorkoutSessions db));
               rows = (if n < 0 then matching else take (nat n) matching)
           in if list_all session_readable rows then Inr (map session_read rows)
              else Inl RangeError)"

text \<open>An insert is refused when the primary key is taken; the new row goes last.\<close>

definition insert_session :: "WorkoutSession \<Rightarrow> Db \<Rightarrow> Failure + Db" where
  "insert_session s db =
     (if s_id s \<in> set (session_ids db) then Inl ConstraintError
      else Inr (db\<lparr>WorkoutSessions := WorkoutSessions db @ [s]\<rparr>))"

text \<open>An exercise must also reference the id of a stored session.\<close>

definition insert_exercise :: "WorkoutExercise \<Rightarrow> Db \<Rightarrow> Failure + Db" where
  "insert_exercise e db =
     (if e_id e \<in> set (exercise_ids db) then Inl ConstraintError
      else if e_sessionId e \<notin> set (session_ids db) then Inl ConstraintError
      else Inr (db\<lparr>WorkoutExercises := WorkoutExercises db @ [e]\<rparr>))"

text \<open>
  \<^verbatim>\<open>update(T).set(d).where(p)\<close> rewrites every row that satisfies \<open>p\<close>, in place. The
  handlers never set a session's id, so only the update of exercises can break a key:
  the \<open>sessionId\<close> it writes must be the id of a stored session.
\<close>

definition update_sessions ::
  "(WorkoutSession \<Rightarrow> WorkoutSession) \<Rightarrow> (WorkoutSession \<Rightarrow> bool) \<Rightarrow> Db \<Rightarrow> Db" where
  "update_sessions d p db =
     db\<lparr>WorkoutSessions := map (\<lambda>s. if p s then d s else s) (WorkoutSessions db)\<rparr>"

definition update_exercises ::
  "(WorkoutExercise \<Rightarrow> WorkoutExercise) \<Rightarrow> (WorkoutExercise \<Rightarrow> bool) \<Rightarrow> Db \<Rightarrow> Failure + Db" where
  "update_exercises d p db =
     (if list_ex (\<lambda>e. p e \<and> e_sessionId (d e) \<notin> set (session_ids db)) (WorkoutExercises db)
      then Inl ConstraintError
      else Inr (db\<lparr>WorkoutExercises := map (\<lambda>e. if p e then d e else e) (WorkoutExercises db)\<rparr>))"

definition delete_exercises :: "(WorkoutExercise \<Rightarrow> bool) \<Rightarrow> Db \<Rightarrow> Db" where
  "delete_exercises p db =
     db\<lparr>WorkoutExercises := filter (\<lambda>e. \<not> p e) (WorkoutExercises db)\<rparr>"

text \<open>A session that a stored exercise still references cannot be deleted.\<close>

definition delete_sessions :: "(WorkoutSession \<Rightarrow> bool) \<Rightarrow> Db \<Rightarrow> Failure + Db" where
  "delete_sessions p db =
     (if list_ex (\<lambda>e. e_sessionId e \<in> set (map s_id (filter p (WorkoutSessions db))))
           (WorkoutExercises db)
      then Inl ConstraintError
      else Inr (db\<lparr>WorkoutSessions := filter (\<lambda>s. \<not> p s) (WorkoutSessions db)\<rparr>))"

subsection \<open>Handlers\<close>

definition getSessionForUser :: "string \<Rightarrow> string \<Rightarrow> Db \<Rightarrow> Failure + WorkoutSession" where
  "getSessionForUser sessionId userId db =
     (case select_sessions (\<lambda>s. s_id s = sessionId \<and> s_userId s = userId) db of
        Inl err \<Rightarrow> Inl err
      | Inr rows \<Rightarrow>
          (case first rows of
             None \<Rightarrow> Inl (ActionError NOT_FOUND ''Workout session not found.'')
           | Some session \<Rightarrow> Inr session))"

record CreateInput =
  ci_title :: "string option"
  ci_workoutDate :: "date option"
  ci_startTime :: "date option"
  ci_endTime :: "date option"
  ci_workoutType :: "string option"
  ci_notes :: "string option"
  ci_totalDurationMinutes :: "int option"
  ci_totalCalories :: "int option"

definition createWorkoutSession_handler ::
  "CreateInput \<Rightarrow> ActionAPIContext \<Rightarrow> Env \<Rightarrow> Db \<Rightarrow> WorkoutSession result" where
  "createWorkoutSession_handler input context env db =
     (case requireUser context of
        Inl err \<Rightarrow> (Inl err, db)
      | Inr usr \<Rightarrow>
          let now = new_Date env;
              session = \<lparr>s_id = randomUUID env,
                         s_userId = user_id usr,
                         s_title = ci_title input,
                         s_workoutDate = (case ci_workoutDate input of None \<Rightarrow> now | Some d \<Rightarrow> d),
                         s_startTime = ci_startTime input,
                         s_endTime = ci_endTime input,
                         s_workoutType = ci_workoutType input,
                         s_notes = ci_notes input,
                         s_totalDurationMinutes = ci_totalDurationMinutes input,
                         s_totalCalories = ci_totalCalories input,
                         s_createdAt = now,
                         s_updatedAt = now\<rparr>
          in (case insert_session session db of
                Inl err \<Rightarrow> (Inl err, db)
              | Inr db' \<Rightarrow> (Inr session, db')))"

record UpdateInput =
  ui_id :: string
  ui_title :: "string option"
  ui_workoutDate :: "date option"
  ui_startTime :: "date option"
  ui_endTime :: "date option"
  ui_workoutType :: "string option"
  ui_notes :: "string option"
  ui_totalDurationMinutes :: "int option"
  ui_totalCalories :: "int option"

text \<open>
  \<^verbatim>\<open>updateData\<close> of \<^verbatim>\<open>updateWorkoutSession\<close>, as the change \<^verbatim>\<open>.set(updateData)\<close>
  makes to one row: \<open>updatedAt\<close> always, every other column only when the input has it.
\<close>

definition session_updateData :: "UpdateInput \<Rightarrow> date \<Rightarrow> WorkoutSession \<Rightarrow> WorkoutSession" where
  "session_updateData input now s =
     s\<lparr>s_updatedAt := now,
       s_title := (case ui_title input of None \<Rightarrow> s_title s | Some v \<Rightarrow> Some v),
       s_workoutDate := (case ui_workoutDate input of None \<Rightarrow> s_workoutDate s | Some v \<Rightarrow> v),
       s_startTime := (case ui_startTime input of None \<Rightarrow> s_startTime s | Some v \<Rightarrow> Some v),
       s_endTime := (case ui_endTime input of None \<Rightarrow> s_endTime s | Some v \<Rightarrow> Some v),
       s_workoutType := (case ui_workoutType input of None \<Rightarrow> s_workoutType s | Some v \<Rightarrow> Some v),
       s_notes := (case ui_notes input of None \<Rightarrow> s_notes s | Some v \<Rightarrow> Some v),
       s_totalDurationMinutes :=
         (case ui_totalDurationMinutes input of None \<Rightarrow> s_totalDurationMinutes s | Some v \<Rightarrow> Some v),
       s_totalCalories :=
         (case ui_totalCalories input of None \<Rightarrow> s_totalCalories s | Some v \<Rightarrow> Some v)\<rparr>"

definition updateWorkoutSession_handler ::
  "UpdateInput \<Rightarrow> ActionAPIContext \<Rightarrow> Env \<Rightarrow> Db \<Rightarrow> WorkoutSession option result" where
  "updateWorkoutSession_handler input context env db =
     (case requireUser context of
        Inl err \<Rightarrow> (Inl err, db)
      | Inr usr \<Rightarrow>
          (case getSessionForUser (ui_id input) (user_id usr) db of
             Inl err \<Rightarrow> (Inl err, db)
           | Inr _ \<Rightarrow>
               let db' = update_sessions (session_updateData input (new_Date env))
                           (\<lambda>s. s_id s = ui_id input \<and> s_userId s = user_id usr) db
               in (case select_sessions
                           (\<lambda>s. s_id s = ui_id input \<and> s_userId s = user_id usr) db' of
                     Inl err \<Rightarrow> (Inl err, db')
                   | Inr rows \<Rightarrow> (Inr (first rows), db'))))"

record IdInput =
  in_id :: string

definition deleteWorkoutSession_handler ::
  "IdInput \<Rightarrow> ActionAPIContext \<Rightarrow> Env \<Rightarrow> Db \<Rightarrow> string result" where
  "deleteWorkoutSession_handler input context env db =
     (case requireUser context of
        Inl err \<Rightarrow> (Inl err, db)
      | Inr usr \<Rightarrow>
          (case getSessionForUser (in_id input) (user_id usr) db of
             Inl err \<Rightarrow> (Inl err, db)
           | Inr _ \<Rightarrow>
               let db1 = delete_exercises
                           (\<lambda>e. e_sessionId e = in_id input \<and> e_userId e = user_id usr) db
               in (case delete_sessions
                           (\<lambda>s. s_id s = in_id input \<and> s_userId s = user_id usr) db1 of
                     Inl err \<Rightarrow> (Inl err, db1)
                   | Inr db2 \<Rightarrow> (Inr (in_id input), db2))))"

record ListInput =
  li_page :: int
  li_pageSize :: int

record ListData =
  items :: "WorkoutSession list"
  total :: int
  page :: int
  pageSize :: int

text \<open>
  \<open>page\<close> and \<open>pageSize\<close> are JavaScript numbers with integer values, and so are the
  difference and the product that make the offset.
\<close>

definition listMyWorkoutSessions_handler ::
  "ListInput \<Rightarrow> ActionAPIContext \<Rightarrow> Env \<Rightarrow> Db \<Rightarrow> ListData result" where
  "listMyWorkoutSessions_handler input context env db =
     (case requireUser context of
        Inl err \<Rightarrow> (Inl err, db)
      | Inr usr \<Rightarrow>
          let offset = js_number (js_number (li_page input - 1) * li_pageSize input)
          in (case select_sessions_page (\<lambda>s. s_userId s = user_id usr)
                     (li_pageSize input) offset db of
                Inl err \<Rightarrow> (Inl err, db)
              | Inr sessions \<Rightarrow>
                  (Inr \<lparr>items = sessions,
                        total = int (length sessions),
                        page = li_page input,
                        pageSize = li_pageSize input\<rparr>, db)))"

definition getWorkoutSessionWithExercises_handler ::
  "IdInput \<Rightarrow> ActionAPIContext \<Rightarrow> Env \<Rightarrow> Db \<Rightarrow> (WorkoutSession \<times> WorkoutExercise list) result" where
  "getWorkoutSessionWithExercises_handler input context env db =
     (case requireUser context of
        Inl err \<Rightarrow> (Inl err, db)
      | Inr usr \<Rightarrow>
          (case getSessionForUser (in_id input) (user_id usr) db of
             Inl err \<Rightarrow> (Inl err, db)
           | Inr session \<Rightarrow>
               (case select_exercises
                       (\<lambda>e. e_sessionId e = in_id input \<and> e_userId e = user_id usr) db of
                  Inl err \<Rightarrow> (Inl err, db)
                | Inr exercises \<Rightarrow> (Inr (session, exercises), db))))"

record UpsertInput =
  xi_id :: "string option"
  xi_sessionId :: string
  xi_name :: string
  xi_category :: "string option"
  xi_sets :: "int option"
  xi_repsPerSet :: "int option"
  xi_weightPerRep :: "real option"
  xi_distanceKm :: "real option"
  xi_durationMinutes :: "real option"
  xi_caloriesBurned :: "real option"
  xi_notes :: "string option"

text \<open>\<^verbatim>\<open>if (input.id)\<close>: an absent id and the empty string are both falsy.\<close>

fun truthy :: "string option \<Rightarrow> bool" where
  "truthy None = False"
| "truthy (Some v) = (v \<noteq> [])"

text \<open>\<^verbatim>\<open>updateData\<close> of \<^verbatim>\<open>upsertWorkoutExercise\<close>: \<open>sessionId\<close> and \<open>name\<close> always.\<close>

definition exercise_updateData :: "UpsertInput \<Rightarrow> WorkoutExercise \<Rightarrow> WorkoutExercise" where
  "exercise_updateData input e =
     e\<lparr>e_sessionId := xi_sessionId input,
       e_name := xi_name input,
       e_category := (case xi_category input of None \<Rightarrow> e_category e | Some v \<Rightarrow> Some v),
       e_sets := (case xi_sets input of None \<Rightarrow> e_sets e | Some v \<Rightarrow> Some v),
       e_repsPerSet := (case xi_repsPerSet input of None \<Rightarrow> e_repsPerSet e | Some v \<Rightarrow> Some v),
       e_weightPerRep := (case xi_weightPerRep input of None \<Rightarrow> e_weightPerRep e | Some v \<Rightarrow> Some v),
       e_distanceKm := (case xi_distanceKm input of None \<Rightarrow> e_distanceKm e | Some v \<Rightarrow> Some v),
       e_durationMinutes :=
         (case xi_durationMinutes input of None \<Rightarrow> e_durationMinutes e | Some v \<Rightarrow> Some v),
       e_caloriesBurned :=
         (case xi_caloriesBurned input of None \<Rightarrow> e_caloriesBurned e | Some v \<Rightarrow> Some v),
       e_notes := (case xi_notes input of None \<Rightarrow> e_notes e | Some v \<Rightarrow> Some v)\<rparr>"

definition upsertWorkoutExercise_handler ::
  "UpsertInput \<Rightarrow> ActionAPIContext \<Rightarrow> Env \<Rightarrow> Db \<Rightarrow> WorkoutExercise option result" where
  "upsertWorkoutExercise_handler input context env db =
     (case requireUser context of
        Inl err \<Rightarrow> (Inl err, db)
      | Inr usr \<Rightarrow>
          (case getSessionForUser (xi_sessionId input) (user_id usr) db of
             Inl err \<Rightarrow> (Inl err, db)
           | Inr _ \<Rightarrow>
               if truthy (xi_id input) then
                 (case select_exercises
                         (\<lambda>e. Some (e_id e) = xi_id input \<and> e_userId e = user_id usr) db of
                    Inl err \<Rightarrow> (Inl err, db)
                  | Inr found \<Rightarrow>
                      (case first found of
                         None \<Rightarrow>
                           (Inl (ActionError NOT_FOUND ''Workout exercise not found.''), db)
                       | Some existing \<Rightarrow>
                           (case update_exercises (exercise_updateData input)
                                   (\<lambda>e. Some (e_id e) = xi_id input \<and> e_userId e = user_id usr)
                                   db of
                              Inl err \<Rightarrow> (Inl err, db)
                            | Inr db' \<Rightarrow>
                                (case select_exercises
                                        (\<lambda>e. Some (e_id e) = xi_id input \<and>
                                             e_userId e = user_id usr) db' of
                                   Inl err \<Rightarrow> (Inl err, db')
                                 | Inr rows \<Rightarrow> (Inr (first rows), db')))))
               else
                 let exercise = \<lparr>e_id = randomUUID env,
                                 e_sessionId = xi_sessionId input,
                                 e_userId = user_id usr,
                                 e_name = xi_name input,
                                 e_category = xi_category input,
                                 e_sets = xi_sets input,
                                 e_repsPerSet = xi_repsPerSet input,
                                 e_weightPerRep = xi_weightPerRep input,
                                 e_distanceKm = xi_distanceKm input,
                                 e_durationMinutes = xi_durationMinutes input,
                                 e_caloriesBurned = xi_caloriesBurned input,
                                 e_notes = xi_notes input,
                                 e_createdAt = new_Date env\<rparr>
                 in (case insert_exercise exercise db of
                       Inl err \<Rightarrow> (Inl err, db)
                     | Inr db' \<Rightarrow> (Inr (Some exercise), db'))))"

definition deleteWorkoutExercise_handler ::
  "IdInput \<Rightarrow> ActionAPIContext \<Rightarrow> Env \<Rightarrow> Db \<Rightarrow> string result" where
  "deleteWorkoutExercise_handler input context env db =
     (case requireUser context of
        Inl err \<Rightarrow> (Inl err, db)
      | Inr usr \<Rightarrow>
          (case select_exercises
                  (\<lambda>e. e_id e = in_id input \<and> e_userId e = user_id usr) db of
             Inl err \<Rightarrow> (Inl err, db)
           | Inr rows \<Rightarrow>
               (case first rows of
                  None \<Rightarrow> (Inl (ActionError NOT_FOUND ''Workout exercise not found.''), db)
                | Some exercise \<Rightarrow>
                    (Inr (in_id input),
                     delete_exercises
                       (\<lambda>e. e_id e = in_id input \<and> e_userId e = user_id usr) db))))"

subsection \<open>Input schemas\<close>

text \<open>
  The \<^verbatim>\<open>z.object\<close> of each action, as a parser of the request's fields. A request
  may leave any field out, so every field of a raw input is an \<open>option\<close>; a field of
  the wrong JavaScript type is not represented, and \<^verbatim>\<open>z.coerce.date()\<close> is taken
  to have produced its date already. Keys the schema does not name are dropped by
  \<^verbatim>\<open>z.object\<close>: the parsed input has no other field.
\<close>

definition createWorkoutSession_input :: "CreateInput \<Rightarrow> CreateInput option" where
  "createWorkoutSession_input raw =
     (if optional (\<lambda>v. 1 \<le> length v) (ci_title raw)
       \<and> optional (\<lambda>v. 1 \<le> length v) (ci_workoutType raw)
       \<and> optional (\<lambda>v. 0 < v) (ci_totalDurationMinutes raw)
       \<and> optional (\<lambda>v. 0 \<le> v) (ci_totalCalories raw)
      then Some raw else None)"

record UpdateRaw =
  ur_id :: "string option"
  ur_title :: "string option"
  ur_workoutDate :: "date option"
  ur_startTime :: "date option"
  ur_endTime :: "date option"
  ur_workoutType :: "string option"
  ur_notes :: "string option"
  ur_totalDurationMinutes :: "int option"
  ur_totalCalories :: "int option"

definition updateWorkoutSession_input :: "UpdateRaw \<Rightarrow> UpdateInput option" where
  "updateWorkoutSession_input raw =
     (case ur_id raw of
        None \<Rightarrow> None
      | Some i \<Rightarrow>
          if optional (\<lambda>v. 1 \<le> length v) (ur_title raw)
           \<and> optional (\<lambda>v. 1 \<le> length v) (ur_workoutType raw)
           \<and> optional (\<lambda>v. 0 < v) (ur_totalDurationMinutes raw)
           \<and> optional (\<lambda>v. 0 \<le> v) (ur_totalCalories raw)
          then Some \<lparr>ui_id = i,
                     ui_title = ur_title raw,
                     ui_workoutDate = ur_workoutDate raw,
                     ui_startTime = ur_startTime raw,
                     ui_endTime = ur_endTime raw,
                     ui_workoutType = ur_workoutType raw,
                     ui_notes = ur_notes raw,
                     ui_totalDurationMinutes = ur_totalDurationMinutes raw,
                     ui_totalCalories = ur_totalCalories raw\<rparr>
          else None)"

record IdRaw =
  ir_id :: "string option"

definition id_input :: "IdRaw \<Rightarrow> IdInput option" where
  "id_input raw = (case ir_id raw of None \<Rightarrow> None | Some i \<Rightarrow> Some \<lparr>in_id = i\<rparr>)"

record ListRaw =
  lr_page :: "int option"
  lr_pageSize :: "int option"

definition listMyWorkoutSessions_input :: "ListRaw \<Rightarrow> ListInput option" where
  "listMyWorkoutSessions_input raw =
     (let p = (case lr_page raw of None \<Rightarrow> 1 | Some v \<Rightarrow> v);
          n = (case lr_pageSize raw of None \<Rightarrow> 20 | Some v \<Rightarrow> v)
      in if 0 < p \<and> 0 < n \<and> n \<le> 100 then Some \<lparr>li_page = p, li_pageSize = n\<rparr> else None)"

record UpsertRaw =
  xr_id :: "string option"
  xr_sessionId :: "string option"
  xr_name :: "string option"
  xr_category :: "string option"
  xr_sets :: "int option"
  xr_repsPerSet :: "int option"
  xr_weightPerRep :: "real option"
  xr_distanceKm :: "real option"
  xr_durationMinutes :: "real option"
  xr_caloriesBurned :: "real option"
  xr_notes :: "string option"

definition upsertWorkoutExercise_input :: "UpsertRaw \<Rightarrow> UpsertInput option" where
  "upsertWorkoutExercise_input raw =
     (case xr_sessionId raw of
        None \<Rightarrow> None
      | Some sid \<Rightarrow>
          (case xr_name raw of
             None \<Rightarrow> None
           | Some nm \<Rightarrow>
               if 1 \<le> length nm
                \<and> optional (\<lambda>v. 0 < v) (xr_sets raw)
                \<and> optional (\<lambda>v. 0 < v) (xr_repsPerSet raw)
                \<and> optional (\<lambda>v. 0 < v) (xr_weightPerRep raw)
                \<and> optional (\<lambda>v. 0 < v) (xr_distanceKm raw)
                \<and> optional (\<lambda>v. 0 < v) (xr_durationMinutes raw)
                \<and> optional (\<lambda>v. 0 \<le> v) (xr_caloriesBurned raw)
               then Some \<lparr>xi_id = xr_id raw,
                          xi_sessionId = sid,
                          xi_name = nm,
                          xi_category = xr_category raw,
                          xi_sets = xr_sets raw,
                          xi_repsPerSet = xr_repsPerSet raw,
                          xi_weightPerRep = xr_weightPerRep raw,
                          xi_distanceKm = xr_distanceKm raw,
                          xi_durationMinutes = xr_durationMinutes raw,
                          xi_caloriesBurned = xr_caloriesBurned raw,
                          xi_notes = xr_notes raw\<rparr>
               else None))"

subsection \<open>Actions\<close>

text \<open>
  Modelled from the spec: \<^verbatim>\<open>defineAction\<close> is imported from \<^verbatim>\<open>astro:actions\<close> and
  its code is not part of the sources. The spec's request-handling layer "validates
  input shape, resolves the authenticated caller, and invokes one of the store
  operations", and "InvalidInput is detected before any store access": the input is
  parsed against the schema, a request that does not parse is rejected with the store
  untouched, and only a parsed input reaches the handler (whose first statement is
  \<^verbatim>\<open>requireUser(context)\<close>).
\<close>

definition defineAction ::
  "('raw \<Rightarrow> 'inp option) \<Rightarrow> ('inp \<Rightarrow> ActionAPIContext \<Rightarrow> Env \<Rightarrow> Db \<Rightarrow> 'out result) \<Rightarrow>
   'raw \<Rightarrow> ActionAPIContext \<Rightarrow> Env \<Rightarrow> Db \<Rightarrow> 'out result" where
  "defineAction schema handler raw context env db =
     (case schema raw of
        None \<Rightarrow> (Inl ActionInputError, db)
      | Some input \<Rightarrow> handler input context env db)"

definition createWorkoutSession where
  "createWorkoutSession = defineAction createWorkoutSession_input createWorkoutSession_handler"

definition updateWorkoutSession where
  "updateWorkoutSession = defineAction updateWorkoutSession_input updateWorkoutSession_handler"

definition deleteWorkoutSession where
  "deleteWorkoutSession = defineAction id_input deleteWorkoutSession_handler"

definition listMyWorkoutSessions where
  "listMyWorkoutSessions = defineAction listMyWorkoutSessions_input listMyWorkoutSessions_handler"

definition getWorkoutSessionWithExercises where
  "getWorkoutSessionWithExercises =
     defineAction id_input getWorkoutSessionWithExercises_handler"

definition upsertWorkoutExercise where
  "upsertWorkoutExercise = defineAction upsertWorkoutExercise_input upsertWorkoutExercise_handler"

definition deleteWorkoutExercise where
  "deleteWorkoutExercise = defineAction id_input deleteWorkoutExercise_handler"

subsection \<open>Ownership and the declared keys as predicates on the store\<close>

definition owns_session :: "Db \<Rightarrow> string \<Rightarrow> string \<Rightarrow> bool" where
  "owns_session db userId sessionId =
     list_ex (\<lambda>s. s_id s = sessionId \<and> s_userId s = userId) (WorkoutSessions db)"


text \<open>
  An exercise belongs to the owner of the session it references (the data model's
  invariant on \<open>WorkoutExercise.userId\<close>).
\<close>

definition exercises_follow_owner :: "Db \<Rightarrow> bool" where
  "exercises_follow_owner db =
     list_all (\<lambda>e. list_all (\<lambda>s. s_id s = e_sessionId e \<longrightarrow> s_userId s = e_userId e)
                 (WorkoutSessions db)) (WorkoutExercises db)"

text \<open>
  The store as the schema and the handlers keep it: ids are unique in each table
  (\<^verbatim>\<open>primaryKey: true\<close>), and every exercise references a stored session
  (\<^verbatim>\<open>references\<close>) of its own user.
\<close>

definition wf_db :: "Db \<Rightarrow> bool" where
  "wf_db db \<longleftrightarrow>
     distinct (session_ids db) \<and> distinct (exercise_ids db) \<and>
     list_all (\<lambda>e. owns_session db (e_userId e) (e_sessionId e)) (WorkoutExercises db)"

text \<open>
  The caller's sessions with a given id can all be decoded; a row is intact when a
  SELECT hands it back as it is stored (its integers are safe and its texts hold no NUL).
\<close>

definition sessions_readable :: "Db \<Rightarrow> string \<Rightarrow> string \<Rightarrow> bool" where
  "sessions_readable db userId sessionId =
     list_all session_readable
       (filter (\<lambda>s. s_id s = sessionId \<and> s_userId s = userId) (WorkoutSessions db))"

definition session_intact :: "WorkoutSession \<Rightarrow> bool" where
  "session_intact s \<longleftrightarrow> session_readable s \<and> session_read s = s"


subsection \<open>An example store\<close>

text \<open>Two users; the first owns three sessions, and two exercises share a name.\<close>

definition session_row :: "string \<Rightarrow> string \<Rightarrow> string option \<Rightarrow> WorkoutSession" where
  "session_row i u t =
     \<lparr>s_id = i, s_userId = u, s_title = t, s_workoutDate = 1000, s_startTime = None,
      s_endTime = None, s_workoutType = None, s_notes = None, s_totalDurationMinutes = None,
      s_totalCalories = None, s_createdAt = 1000, s_updatedAt = 1000\<rparr>"

definition exercise_row :: "string \<Rightarrow> string \<Rightarrow> string \<Rightarrow> string \<Rightarrow> WorkoutExercise" where
  "exercise_row i sid u n =
     \<lparr>e_id = i, e_sessionId = sid, e_userId = u, e_name = n, e_category = None,
      e_sets = Some 3, e_repsPerSet = Some 8, e_weightPerRep = Some 60, e_distanceKm = None,
      e_durationMinutes = None, e_caloriesBurned = None, e_notes = None, e_createdAt = 1500\<rparr>"

definition alice :: User where
  "alice = \<lparr>user_id = ''alice''\<rparr>"

definition bob :: User where
  "bob = \<lparr>user_id = ''bob''\<rparr>"

definition example_db :: Db where
  "example_db =
     \<lparr>WorkoutSessions =
        [session_row ''s1'' ''alice'' (Some ''Push Day''),
         session_row ''s2'' ''bob'' None,
         session_row ''s3'' ''alice'' (Some ''Morning Run''),
         session_row ''s4'' ''alice'' None],
      WorkoutExercises =
        [exercise_row ''e1'' ''s1'' ''alice'' ''Bench Press'',
         exercise_row ''e2'' ''s2'' ''bob'' ''Bench Press'',
         exercise_row ''e3'' ''s3'' ''alice'' ''Running'',
         exercise_row ''e4'' ''s1'' ''alice'' ''Dips'']\<rparr>"

definition example_env :: Env where
  "example_env = \<lparr>new_Date = 2000, randomUUID = ''u-7''\<rparr>"

definition example_update :: UpdateInput where
  "example_update =
     \<lparr>ui_id = ''s1'', ui_title = Some ''Leg Day'', ui_workoutDate = None, ui_startTime = None,
      ui_endTime = None, ui_workoutType = None, ui_notes = None,
      ui_totalDurationMinutes = Some 45, ui_totalCalories = None\<rparr>"

definition example_upsert :: UpsertInput where
  "example_upsert =
     \<lparr>xi_id = None, xi_sessionId = ''s1'', xi_name = ''Bench Press'', xi_category = None,
      xi_sets = Some 3, xi_repsPerSet = Some 8, xi_weightPerRep = Some 60, xi_distanceKm = None,
      xi_durationMinutes = None, xi_caloriesBurned = None, xi_notes = None\<rparr>"

text \<open>A request without a signed-in user, and inputs that no schema admits.\<close>

definition anonymous :: ActionAPIContext where
  "anonymous = \<lparr>locals = Some \<lparr>user = None\<rparr>\<rparr>"

definition bad_create :: CreateInput where
  "bad_create =
     \<lparr>ci_title = Some [], ci_workoutDate = None, ci_startTime = None, ci_endTime = None,
      ci_workoutType = None, ci_notes = None, ci_totalDurationMinutes = Some 0,
      ci_totalCalories = None\<rparr>"

definition bad_update :: UpdateRaw where
  "bad_update =
     \<lparr>ur_id = Some ''s1'', ur_title = None, ur_workoutDate = None, ur_startTime = None,
      ur_endTime = None, ur_workoutType = Some [], ur_notes = None,
      ur_totalDurationMinutes = None, ur_totalCalories = Some (- 1)\<rparr>"

definition bad_upsert :: UpsertRaw where
  "bad_upsert =
     \<lparr>xr_id = None, xr_sessionId = Some ''s1'', xr_name = Some [], xr_category = None,
      xr_sets = Some 0, xr_repsPerSet = None, xr_weightPerRep = None, xr_distanceKm = None,
      xr_durationMinutes = None, xr_caloriesBurned = None, xr_notes = None\<rparr>"

text \<open>
  The example store after its first session was given \<open>2^53\<close> calories, and an
  environment whose next id is taken.
\<close>

definition heavy_db :: Db where
  "heavy_db =
     example_db\<lparr>WorkoutSessions :=
       [(session_row ''s1'' ''alice'' (Some ''Push Day''))\<lparr>s_totalCalories := Some (2 ^ 53)\<rparr>,
        session_row ''s2'' ''bob'' None,
        session_row ''s3'' ''alice'' (Some ''Morning Run''),
        session_row ''s4'' ''alice'' None]\<rparr>"

definition colliding_env :: Env where
  "colliding_env = \<lparr>new_Date = 2000, randomUUID = ''e1''\<rparr>"

subsection \<open>Reachable stores\<close>

text \<open>The stores that requests can produce, starting from two empty tables.\<close>

inductive reachable :: "Db \<Rightarrow> bool" where
  reach_empty: "reachable \<lparr>WorkoutSessions = [], WorkoutExercises = []\<rparr>"
| reach_create: "reachable db \<Longrightarrow> reachable (snd (createWorkoutSession c context env db))"
| reach_update: "reachable db \<Longrightarrow> reachable (snd (updateWorkoutSession r context env db))"
| reach_delete: "reachable db \<Longrightarrow> reachable (snd (deleteWorkoutSession i context env db))"
| reach_list: "reachable db \<Longrightarrow> reachable (snd (listMyWorkoutSessions l context env db))"
| reach_get: "reachable db \<Longrightarrow> reachable (snd (getWorkoutSessionWithExercises i context env db))"
| reach_upsert: "reachable db \<Longrightarrow> reachable (snd (upsertWorkoutExercise x context env db))"
| reach_delete_exercise:
    "reachable db \<Longrightarrow> reachable (snd (deleteWorkoutExercise i context env db))"

lemmas example_defs =
  session_row_def exercise_row_def alice_def bob_def example_db_def example_env_def
  heavy_db_def colliding_env_def

lemmas bad_defs = anonymous_def bad_create_def bad_update_def bad_upsert_def

section \<open>Properties\<close>

subsection \<open>Lookups\<close>

lemma requireUser_signed_in: "requireUser (signed_in u) = Inr u"
  by (simp add: requireUser_def signed_in_def)

lemma first_filter_None: "\<not> list_ex p xs \<Longrightarrow> first (filter p xs) = None"
  by (induction xs) auto

lemma first_filter_Some: "first (filter p xs) = Some x \<Longrightarrow> x \<in> set xs \<and> p x"
  by (induction xs) (auto split: if_splits)

lemma first_filter_ex: "list_ex p xs \<Longrightarrow> \<exists>y. first (filter p xs) = Some y"
  by (induction xs) auto

lemma filter_none: "\<not> list_ex p xs \<Longrightarrow> filter p xs = []"
  by (induction xs) auto

lemma getSessionForUser_absent:
  "\<not> owns_session db c i \<Longrightarrow>
   getSessionForUser i c db = Inl (ActionError NOT_FOUND ''Workout session not found.'')"
  by (simp add: getSessionForUser_def select_sessions_def owns_session_def filter_none)

lemma getSessionForUser_present:
  assumes "owns_session db c i" and "sessions_readable db c i"
  shows "\<exists>s. getSessionForUser i c db = Inr s"
proof -
  let ?p = "\<lambda>s. s_id s = i \<and> s_userId s = c"
  from assms(1) obtain s rest where "filter ?p (WorkoutSessions db) = s # rest"
    unfolding owns_session_def list_ex_iff
    by (metis (mono_tags, lifting) filter_empty_conv list.exhaust)
  then show ?thesis
    using assms(2) by (simp add: getSessionForUser_def select_sessions_def sessions_readable_def)
qed

lemma getSessionForUser_cases:
  "getSessionForUser i c db = Inl RangeError \<or>
   getSessionForUser i c db = Inl (ActionError NOT_FOUND ''Workout session not found.'') \<or>
   (\<exists>s. getSessionForUser i c db = Inr s \<and> owns_session db c i)"
proof (cases "owns_session db c i")
  case False
  then show ?thesis by (simp add: getSessionForUser_absent)
next
  case True
  then show ?thesis
    by (auto simp: getSessionForUser_def select_sessions_def Let_def
        split: option.splits sum.splits)
qed

lemma delete_sessions_accepts:
  assumes "owns_session db c i" and "exercises_follow_owner db"
  shows "delete_sessions (\<lambda>s. s_id s = i \<and> s_userId s = c)
           (delete_exercises (\<lambda>e. e_sessionId e = i \<and> e_userId e = c) db) =
         Inr \<lparr>WorkoutSessions = filter (\<lambda>s. \<not> (s_id s = i \<and> s_userId s = c)) (WorkoutSessions db),
              WorkoutExercises = filter (\<lambda>e. \<not> (e_sessionId e = i \<and> e_userId e = c)) (WorkoutExercises db)\<rparr>"
  using assms
  unfolding delete_sessions_def delete_exercises_def owns_session_def exercises_follow_owner_def
  by (auto simp: list_ex_iff list_all_iff)

lemma first_filter_distinct:
  assumes "distinct (map k xs)" and "x \<in> set xs" and "\<And>y. p y \<longleftrightarrow> k y = k x \<and> q y" and "q x"
  shows "first (filter p xs) = Some x"
  using assms(1,2)
proof (induction xs)
  case Nil
  then show ?case by simp
next
  case (Cons y ys)
  show ?case
  proof (cases "y = x")
    case True
    then show ?thesis using assms(3,4) by simp
  next
    case False
    with Cons.prems have "x \<in> set ys" and "k y \<noteq> k x"
      by (auto simp: image_iff)
    with Cons show ?thesis using assms(3) by simp
  qed
qed

lemma map_update_distinct:
  assumes "distinct (map k xs)" and "x \<in> set xs" and "\<And>y. p y \<longleftrightarrow> k y = k x \<and> q y" and "q x"
  shows "map (\<lambda>y. if p y then d y else y) xs = map (\<lambda>y. if y = x then d x else y) xs"
proof (rule map_cong [OF refl])
  fix y assume "y \<in> set xs"
  with assms(1,2) have "k y = k x \<Longrightarrow> y = x"
    by (meson distinct_map inj_onD)
  then show "(if p y then d y else y) = (if y = x then d x else y)"
    using assms(3,4) by auto
qed

lemma first_filter_map_update:
  assumes "first (filter p xs) = Some x" and "\<And>y. p (d y) = p y"
  shows "first (filter p (map (\<lambda>y. if p y then d y else y) xs)) = Some (d x)"
  using assms(1)
proof (induction xs)
  case Nil
  then show ?case by simp
next
  case (Cons y ys)
  then show ?case using assms(2) by (cases "p y") simp_all
qed

lemma session_updateData_key:
  "s_id (session_updateData input now s) = s_id s"
  "s_userId (session_updateData input now s) = s_userId s"
  by (simp_all add: session_updateData_def)

lemma owns_session_in_ids: "owns_session db c i \<Longrightarrow> i \<in> set (session_ids db)"
  by (auto simp: owns_session_def session_ids_def list_ex_iff)

lemma exercise_updateData_key:
  "e_id (exercise_updateData input e) = e_id e"
  "e_userId (exercise_updateData input e) = e_userId e"
  by (simp_all add: exercise_updateData_def)



subsection \<open>The keys hold in every reachable store\<close>

lemma wf_db_iff:
  "wf_db db \<longleftrightarrow>
     distinct (map s_id (WorkoutSessions db)) \<and> distinct (map e_id (WorkoutExercises db)) \<and>
     (\<forall>e \<in> set (WorkoutExercises db). \<exists>s \<in> set (WorkoutSessions db).
        s_id s = e_sessionId e \<and> s_userId s = e_userId e)"
  by (simp add: wf_db_def session_ids_def exercise_ids_def owns_session_def list_all_iff list_ex_iff)

lemma wf_dbI:
  assumes "WorkoutSessions db = ss" and "WorkoutExercises db = es"
    and "distinct (map s_id ss)" and "distinct (map e_id es)"
    and "\<And>e. e \<in> set es \<Longrightarrow> \<exists>s \<in> set ss. s_id s = e_sessionId e \<and> s_userId s = e_userId e"
  shows "wf_db db"
  unfolding wf_db_iff assms(1,2) using assms(3-5) by blast

lemma wf_db_session:
  assumes "wf_db db" and "e \<in> set (WorkoutExercises db)"
  obtains s where "s \<in> set (WorkoutSessions db)" "s_id s = e_sessionId e" "s_userId s = e_userId e"
  using assms unfolding wf_db_iff by blast

lemma wf_db_empty: "wf_db \<lparr>WorkoutSessions = [], WorkoutExercises = []\<rparr>"
  by (simp add: wf_db_iff)

lemma example_db_wf: "wf_db example_db"
  by (simp add: wf_db_def session_ids_def exercise_ids_def owns_session_def example_defs)

lemma wf_db_follow_owner:
  assumes "wf_db db"
  shows "exercises_follow_owner db"
  unfolding exercises_follow_owner_def list_all_iff
proof (intro ballI impI)
  fix e s
  assume e: "e \<in> set (WorkoutExercises db)" and s: "s \<in> set (WorkoutSessions db)"
    and eq: "s_id s = e_sessionId e"
  from assms e obtain s' where s': "s' \<in> set (WorkoutSessions db)"
    "s_id s' = e_sessionId e" "s_userId s' = e_userId e"
    by (rule wf_db_session)
  from assms have "inj_on s_id (set (WorkoutSessions db))"
    by (simp add: wf_db_iff distinct_map)
  moreover have "s_id s = s_id s'"
    using eq s'(2) by simp
  ultimately have "s = s'"
    using s s'(1) by (simp add: inj_on_def)
  with s' show "s_userId s = e_userId e" by simp
qed

lemma map_key_update:
  "(\<And>x. k (d x) = k x) \<Longrightarrow> map k (map (\<lambda>x. if p x then d x else x) xs) = map k xs"
  by (induction xs) auto

lemma insert_session_wf:
  assumes "wf_db db" and "insert_session s db = Inr db'"
  shows "wf_db db'"
proof -
  from assms(2) have fresh: "s_id s \<notin> set (map s_id (WorkoutSessions db))"
    and db': "db' = db\<lparr>WorkoutSessions := WorkoutSessions db @ [s]\<rparr>"
    by (simp_all add: insert_session_def session_ids_def split: if_splits)
  show ?thesis
  proof (rule wf_dbI)
    show "WorkoutSessions db' = WorkoutSessions db @ [s]" and "WorkoutExercises db' = WorkoutExercises db"
      by (simp_all add: db')
    show "distinct (map s_id (WorkoutSessions db @ [s]))"
      using assms(1) fresh by (simp add: wf_db_iff)
    show "distinct (map e_id (WorkoutExercises db))"
      using assms(1) by (simp add: wf_db_iff)
    fix e assume "e \<in> set (WorkoutExercises db)"
    with assms(1) obtain s0 where "s0 \<in> set (WorkoutSessions db)"
      "s_id s0 = e_sessionId e" "s_userId s0 = e_userId e"
      by (rule wf_db_session)
    then show "\<exists>s \<in> set (WorkoutSessions db @ [s]). s_id s = e_sessionId e \<and> s_userId s = e_userId e"
      by (simp only: set_append) blast
  qed
qed

lemma createWorkoutSession_wf:
  "wf_db db \<Longrightarrow> wf_db (snd (createWorkoutSession_handler input context env db))"
  by (simp add: createWorkoutSession_handler_def Let_def insert_session_wf split: sum.splits)

lemma update_sessions_wf:
  assumes "wf_db db"
  shows "wf_db (update_sessions (session_updateData input now) p db)"
proof (rule wf_dbI)
  let ?f = "\<lambda>s. if p s then session_updateData input now s else s"
  show "WorkoutSessions (update_sessions (session_updateData input now) p db) =
      map ?f (WorkoutSessions db)"
    and "WorkoutExercises (update_sessions (session_updateData input now) p db) =
      WorkoutExercises db"
    by (simp_all add: update_sessions_def)
  have "map s_id (map ?f (WorkoutSessions db)) = map s_id (WorkoutSessions db)"
    by (rule map_key_update) (rule session_updateData_key)
  then show "distinct (map s_id (map ?f (WorkoutSessions db)))"
    using assms by (simp only: wf_db_iff)
  show "distinct (map e_id (WorkoutExercises db))"
    using assms by (simp add: wf_db_iff)
  fix e assume "e \<in> set (WorkoutExercises db)"
  with assms obtain s where s: "s \<in> set (WorkoutSessions db)"
    "s_id s = e_sessionId e" "s_userId s = e_userId e"
    by (rule wf_db_session)
  have "?f s \<in> set (map ?f (WorkoutSessions db))"
    using s(1) by (simp only: set_map) (rule imageI)
  moreover have "s_id (?f s) = e_sessionId e" and "s_userId (?f s) = e_userId e"
    using s(2,3) by (simp_all add: session_updateData_key)
  ultimately show "\<exists>s \<in> set (map ?f (WorkoutSessions db)).
      s_id s = e_sessionId e \<and> s_userId s = e_userId e"
    by blast
qed

lemma updateWorkoutSession_wf:
  "wf_db db \<Longrightarrow> wf_db (snd (updateWorkoutSession_handler input context env db))"
  by (simp add: updateWorkoutSession_handler_def Let_def update_sessions_wf split: sum.splits)

lemma delete_exercises_wf:
  assumes "wf_db db"
  shows "wf_db (delete_exercises p db)"
proof (rule wf_dbI)
  show "WorkoutSessions (delete_exercises p db) = WorkoutSessions db"
    and "WorkoutExercises (delete_exercises p db) = filter (\<lambda>e. \<not> p e) (WorkoutExercises db)"
    by (simp_all add: delete_exercises_def)
  show "distinct (map s_id (WorkoutSessions db))"
    and "distinct (map e_id (filter (\<lambda>e. \<not> p e) (WorkoutExercises db)))"
    using assms by (simp_all add: wf_db_iff distinct_map_filter)
  fix e assume "e \<in> set (filter (\<lambda>e. \<not> p e) (WorkoutExercises db))"
  then have "e \<in> set (WorkoutExercises db)" by simp
  with assms obtain s where "s \<in> set (WorkoutSessions db)"
    "s_id s = e_sessionId e" "s_userId s = e_userId e"
    by (rule wf_db_session)
  then show "\<exists>s \<in> set (WorkoutSessions db). s_id s = e_sessionId e \<and> s_userId s = e_userId e"
    by blast
qed

lemma deleteWorkoutExercise_wf:
  "wf_db db \<Longrightarrow> wf_db (snd (deleteWorkoutExercise_handler input context env db))"
  by (simp add: deleteWorkoutExercise_handler_def delete_exercises_wf
      split: sum.splits option.splits)

lemma delete_sessions_wf:
  assumes "wf_db db"
    and "delete_sessions (\<lambda>s. s_id s = i \<and> s_userId s = c)
          (delete_exercises (\<lambda>e. e_sessionId e = i \<and> e_userId e = c) db) = Inr db2"
  shows "wf_db db2"
proof (rule wf_dbI)
  let ?ss = "filter (\<lambda>s. \<not> (s_id s = i \<and> s_userId s = c)) (WorkoutSessions db)"
  let ?es = "filter (\<lambda>e. \<not> (e_sessionId e = i \<and> e_userId e = c)) (WorkoutExercises db)"
  show "WorkoutSessions db2 = ?ss" and "WorkoutExercises db2 = ?es"
    using assms(2) by (auto simp: delete_sessions_def delete_exercises_def split: if_splits)
  show "distinct (map s_id ?ss)" and "distinct (map e_id ?es)"
    using assms(1) by (simp_all add: wf_db_iff distinct_map_filter)
  fix e assume "e \<in> set ?es"
  then have e: "e \<in> set (WorkoutExercises db)" "\<not> (e_sessionId e = i \<and> e_userId e = c)"
    by simp_all
  from assms(1) e(1) obtain s where s: "s \<in> set (WorkoutSessions db)"
    "s_id s = e_sessionId e" "s_userId s = e_userId e"
    by (rule wf_db_session)
  with e(2) have "s \<in> set ?ss" by simp
  with s show "\<exists>s \<in> set ?ss. s_id s = e_sessionId e \<and> s_userId s = e_userId e"
    by blast
qed

lemma deleteWorkoutSession_wf:
  assumes "wf_db db"
  shows "wf_db (snd (deleteWorkoutSession_handler input context env db))"
  using assms delete_exercises_wf [OF assms] delete_sessions_wf [OF assms]
  by (simp add: deleteWorkoutSession_handler_def Let_def split: sum.splits)

lemma update_exercises_wf:
  assumes "wf_db db" and "owns_session db c (xi_sessionId input)"
    and "\<And>e. p e \<Longrightarrow> e_userId e = c"
    and "update_exercises (exercise_updateData input) p db = Inr db'"
  shows "wf_db db'"
proof (rule wf_dbI)
  let ?f = "\<lambda>e. if p e then exercise_updateData input e else e"
  from assms(4) have db': "db' = db\<lparr>WorkoutExercises := map ?f (WorkoutExercises db)\<rparr>"
    by (simp add: update_exercises_def split: if_splits)
  from assms(2) obtain s' where s': "s' \<in> set (WorkoutSessions db)"
    "s_id s' = xi_sessionId input" "s_userId s' = c"
    unfolding owns_session_def list_ex_iff by blast
  show "WorkoutSessions db' = WorkoutSessions db"
    and "WorkoutExercises db' = map ?f (WorkoutExercises db)"
    by (simp_all add: db')
  show "distinct (map s_id (WorkoutSessions db))"
    using assms(1) by (simp add: wf_db_iff)
  have "map e_id (map ?f (WorkoutExercises db)) = map e_id (WorkoutExercises db)"
    by (rule map_key_update) (rule exercise_updateData_key)
  then show "distinct (map e_id (map ?f (WorkoutExercises db)))"
    using assms(1) by (simp only: wf_db_iff)
  fix e' assume "e' \<in> set (map ?f (WorkoutExercises db))"
  then obtain e where e: "e \<in> set (WorkoutExercises db)" "e' = ?f e"
    by (simp only: set_map) blast
  show "\<exists>s \<in> set (WorkoutSessions db). s_id s = e_sessionId e' \<and> s_userId s = e_userId e'"
  proof (cases "p e")
    case True
    then have "e_sessionId e' = xi_sessionId input" and "e_userId e' = c"
      using e(2) assms(3) by (simp_all add: exercise_updateData_def)
    with s' show ?thesis by metis
  next
    case False
    then have "e' = e" using e(2) by simp
    with assms(1) e(1) show ?thesis
      by (metis wf_db_session)
  qed
qed

lemma insert_exercise_wf:
  assumes "wf_db db" and "owns_session db (e_userId ex) (e_sessionId ex)"
    and "insert_exercise ex db = Inr db'"
  shows "wf_db db'"
proof (rule wf_dbI)
  from assms(3) have fresh: "e_id ex \<notin> set (map e_id (WorkoutExercises db))"
    and db': "db' = db\<lparr>WorkoutExercises := WorkoutExercises db @ [ex]\<rparr>"
    by (simp_all add: insert_exercise_def exercise_ids_def split: if_splits)
  from assms(2) obtain s' where s': "s' \<in> set (WorkoutSessions db)"
    "s_id s' = e_sessionId ex" "s_userId s' = e_userId ex"
    unfolding owns_session_def list_ex_iff by blast
  show "WorkoutSessions db' = WorkoutSessions db"
    and "WorkoutExercises db' = WorkoutExercises db @ [ex]"
    by (simp_all add: db')
  show "distinct (map s_id (WorkoutSessions db))"
    and "distinct (map e_id (WorkoutExercises db @ [ex]))"
    using assms(1) fresh by (simp_all add: wf_db_iff)
  fix e assume "e \<in> set (WorkoutExercises db @ [ex])"
  then consider "e \<in> set (WorkoutExercises db)" | "e = ex"
    by auto
  then show "\<exists>s \<in> set (WorkoutSessions db). s_id s = e_sessionId e \<and> s_userId s = e_userId e"
  proof cases
    case 1
    with assms(1) show ?thesis by (metis wf_db_session)
  next
    case 2
    with s' show ?thesis by metis
  qed
qed

lemma upsertWorkoutExercise_wf:
  assumes "wf_db db"
  shows "wf_db (snd (upsertWorkoutExercise_handler input context env db))"
proof (cases "requireUser context")
  case (Inl err)
  then show ?thesis using assms by (simp add: upsertWorkoutExercise_handler_def)
next
  case (Inr usr)
  show ?thesis
  proof (cases "getSessionForUser (xi_sessionId input) (user_id usr) db")
    case (Inl err)
    then show ?thesis
      using assms Inr by (simp add: upsertWorkoutExercise_handler_def)
  next
    case get: (Inr s)
    then have own: "owns_session db (user_id usr) (xi_sessionId input)"
      using getSessionForUser_cases [of "xi_sessionId input" "user_id usr" db] by auto
    have upd: "wf_db db'"
      if "update_exercises (exercise_updateData input)
            (\<lambda>e. Some (e_id e) = xi_id input \<and> e_userId e = user_id usr) db = Inr db'" for db'
      using assms own _ that by (rule update_exercises_wf) simp
    have ins: "wf_db db'"
      if "insert_exercise ex db = Inr db'" "e_sessionId ex = xi_sessionId input"
        "e_userId ex = user_id usr" for ex db'
      using assms _ that(1) by (rule insert_exercise_wf) (simp add: that own)
    show ?thesis
      using assms Inr get
      by (auto simp: upsertWorkoutExercise_handler_def Let_def
          split: sum.splits option.splits intro: upd ins)
  qed
qed

lemma defineAction_wf:
  assumes "wf_db db" and "\<And>input. wf_db (snd (handler input context env db))"
  shows "wf_db (snd (defineAction schema handler raw context env db))"
  using assms by (simp add: defineAction_def split: option.splits)

lemma listMyWorkoutSessions_store:
  "snd (listMyWorkoutSessions_handler input context env db) = db"
  by (simp add: listMyWorkoutSessions_handler_def Let_def split: sum.splits)

lemma getWorkoutSessionWithExercises_store:
  "snd (getWorkoutSessionWithExercises_handler input context env db) = db"
  by (simp add: getWorkoutSessionWithExercises_handler_def Let_def split: sum.splits)

lemma reachable_wf: "reachable db \<Longrightarrow> wf_db db"
proof (induction rule: reachable.induct)
  case reach_empty
  show ?case by (rule wf_db_empty)
next
  case (reach_create db c ctx env)
  then show ?case
    unfolding createWorkoutSession_def by (intro defineAction_wf createWorkoutSession_wf)
next
  case (reach_update db r ctx env)
  then show ?case
    unfolding updateWorkoutSession_def by (intro defineAction_wf updateWorkoutSession_wf)
next
  case (reach_delete db i ctx env)
  then show ?case
    unfolding deleteWorkoutSession_def by (intro defineAction_wf deleteWorkoutSession_wf)
next
  case (reach_list db l ctx env)
  then show ?case
    unfolding listMyWorkoutSessions_def
    by (intro defineAction_wf) (simp_all add: listMyWorkoutSessions_store)
next
  case (reach_get db i ctx env)
  then show ?case
    unfolding getWorkoutSessionWithExercises_def
    by (intro defineAction_wf) (simp_all add: getWorkoutSessionWithExercises_store)
next
  case (reach_upsert db x ctx env)
  then show ?case
    unfolding upsertWorkoutExercise_def by (intro defineAction_wf upsertWorkoutExercise_wf)
next
  case (reach_delete_exercise db i ctx env)
  then show ?case
    unfolding deleteWorkoutExercise_def by (intro defineAction_wf deleteWorkoutExercise_wf)
qed

lemma reachable_keys:
  assumes "reachable db"
  shows "distinct (session_ids db)" and "distinct (exercise_ids db)"
    and "exercises_follow_owner db"
  using reachable_wf [OF assms] wf_db_follow_owner [of db] by (simp_all add: wf_db_def)

subsection \<open>Rows, pages and JavaScript numbers\<close>

lemma filter_distinct_single:
  assumes "distinct (map k xs)" and "x \<in> set xs" and "\<And>y. p y \<longleftrightarrow> k y = k x \<and> q y" and "q x"
  shows "filter p xs = [x]"
  using assms(1,2)
proof (induction xs)
  case Nil
  then show ?case by simp
next
  case (Cons y ys)
  show ?case
  proof (cases "y = x")
    case True
    with Cons.prems have "\<forall>z \<in> set ys. k z \<noteq> k x"
      by (auto simp: image_iff)
    then have "filter p ys = []"
      using assms(3) by (simp add: filter_empty_conv)
    moreover have "p x"
      using assms(3,4) by simp
    ultimately show ?thesis using True by simp
  next
    case False
    with Cons.prems have "x \<in> set ys" and "k y \<noteq> k x"
      by (auto simp: image_iff)
    with Cons show ?thesis using assms(3) by simp
  qed
qed

lemma filter_map_update:
  assumes "\<And>y. p (d y) = p y"
  shows "filter p (map (\<lambda>y. if p y then d y else y) xs) = map d (filter p xs)"
  using assms by (induction xs) auto

lemma js_number_safe: "\<bar>n\<bar> < 2 ^ 53 \<Longrightarrow> js_number n = n"
  by (simp add: js_number_def)

lemma js_number_page: "js_number 99999999999999999 = 100000000000000000"
  by code_simp

lemma js_number_offset: "js_number 10000000000000000000 = 10000000000000000000"
  by code_simp

lemma map_intact: "list_all session_intact rows \<Longrightarrow> map session_read rows = rows"
  by (induction rows) (simp_all add: session_intact_def)

lemma all_intact_readable: "list_all session_intact rows \<Longrightarrow> list_all session_readable rows"
  by (induction rows) (simp_all add: session_intact_def)

subsection \<open>Deleting a session\<close>

text \<open>
  C1. For a signed-in caller who owns the session, whose rows for that id can be
  decoded, in a store whose exercises belong to the owners of their sessions,
  \<^verbatim>\<open>deleteWorkoutSession\<close> returns the id it was given, having first deleted the
  exercises with that \<open>sessionId\<close> and the caller's \<open>userId\<close> and then the session (the
  second statement runs on the store the first one left). Exactly those rows are gone:
  the other rows of both tables stay, in their order; in particular the caller's
  exercises under other sessions and every row of other users. When the session holds
  an integer of \<open>2^53\<close> or more, the lookup throws and nothing is deleted.
\<close>

theorem deleteWorkoutSession_cascade:
  assumes "owns_session db (user_id u) (in_id input)" and "exercises_follow_owner db"
    and "sessions_readable db (user_id u) (in_id input)"
  shows "\<exists>db'. deleteWorkoutSession_handler input (signed_in u) env db = (Inr (in_id input), db')
     \<and> delete_sessions (\<lambda>s. s_id s = in_id input \<and> s_userId s = user_id u)
         (delete_exercises (\<lambda>e. e_sessionId e = in_id input \<and> e_userId e = user_id u) db) = Inr db'
     \<and> WorkoutExercises db' =
         filter (\<lambda>e. \<not> (e_sessionId e = in_id input \<and> e_userId e = user_id u)) (WorkoutExercises db)
     \<and> WorkoutSessions db' =
         filter (\<lambda>s. \<not> (s_id s = in_id input \<and> s_userId s = user_id u)) (WorkoutSessions db)
     \<and> filter (\<lambda>e. e_userId e = user_id u \<and> e_sessionId e \<noteq> in_id input) (WorkoutExercises db') =
         filter (\<lambda>e. e_userId e = user_id u \<and> e_sessionId e \<noteq> in_id input) (WorkoutExercises db)
     \<and> filter (\<lambda>e. e_userId e \<noteq> user_id u) (WorkoutExercises db') =
         filter (\<lambda>e. e_userId e \<noteq> user_id u) (WorkoutExercises db)
     \<and> filter (\<lambda>s. s_userId s \<noteq> user_id u) (WorkoutSessions db') =
         filter (\<lambda>s. s_userId s \<noteq> user_id u) (WorkoutSessions db)"
proof -
  from assms(1) obtain s where "getSessionForUser (in_id input) (user_id u) db = Inr s"
    using getSessionForUser_present assms(3) by blast
  moreover have "filter (\<lambda>e. e_userId e = user_id u \<and> e_sessionId e \<noteq> in_id input)
        (filter (\<lambda>e. \<not> (e_sessionId e = in_id input \<and> e_userId e = user_id u)) (WorkoutExercises db)) =
      filter (\<lambda>e. e_userId e = user_id u \<and> e_sessionId e \<noteq> in_id input) (WorkoutExercises db)"
    by (auto intro: filter_cong)
  moreover have "filter (\<lambda>e. e_userId e \<noteq> user_id u)
        (filter (\<lambda>e. \<not> (e_sessionId e = in_id input \<and> e_userId e = user_id u)) (WorkoutExercises db)) =
      filter (\<lambda>e. e_userId e \<noteq> user_id u) (WorkoutExercises db)"
    by (auto intro: filter_cong)
  moreover have "filter (\<lambda>s. s_userId s \<noteq> user_id u)
        (filter (\<lambda>s. \<not> (s_id s = in_id input \<and> s_userId s = user_id u)) (WorkoutSessions db)) =
      filter (\<lambda>s. s_userId s \<noteq> user_id u) (WorkoutSessions db)"
    by (auto intro: filter_cong)
  ultimately show ?thesis
    by (simp add: deleteWorkoutSession_handler_def requireUser_signed_in
        delete_sessions_accepts [OF assms(1,2)])
qed

theorem deleteWorkoutSession_cascade_witness:
  "owns_session example_db (user_id alice) ''s1'' \<and> exercises_follow_owner example_db \<and>
   sessions_readable example_db (user_id alice) ''s1'' \<and>
   deleteWorkoutSession_handler \<lparr>in_id = ''s1''\<rparr> (signed_in alice) example_env example_db =
     (Inr ''s1'',
      \<lparr>WorkoutSessions =
        [session_row ''s2'' ''bob'' None,
         session_row ''s3'' ''alice'' (Some ''Morning Run''),
         session_row ''s4'' ''alice'' None],
      WorkoutExercises =
        [exercise_row ''e2'' ''s2'' ''bob'' ''Bench Press'',
         exercise_row ''e3'' ''s3'' ''alice'' ''Running'']\<rparr>)"
proof -
  have own: "owns_session example_db (user_id alice) (in_id \<lparr>in_id = ''s1''\<rparr>)"
    by (simp add: owns_session_def example_defs)
  have inv: "exercises_follow_owner example_db"
    by (simp add: exercises_follow_owner_def example_defs)
  have rd: "sessions_readable example_db (user_id alice) (in_id \<lparr>in_id = ''s1''\<rparr>)"
    by (simp add: sessions_readable_def session_readable_def example_defs)
  from deleteWorkoutSession_cascade [OF own inv rd, of example_env]
  obtain db' where
    r: "deleteWorkoutSession_handler \<lparr>in_id = ''s1''\<rparr> (signed_in alice) example_env example_db =
         (Inr ''s1'', db')"
    and e: "WorkoutExercises db' =
         filter (\<lambda>e. \<not> (e_sessionId e = ''s1'' \<and> e_userId e = user_id alice)) (WorkoutExercises example_db)"
    and s: "WorkoutSessions db' =
         filter (\<lambda>s. \<not> (s_id s = ''s1'' \<and> s_userId s = user_id alice)) (WorkoutSessions example_db)"
    by auto
  have "db' = \<lparr>WorkoutSessions = WorkoutSessions db', WorkoutExercises = WorkoutExercises db'\<rparr>"
    by simp
  also have "\<dots> = \<lparr>WorkoutSessions =
        [session_row ''s2'' ''bob'' None,
         session_row ''s3'' ''alice'' (Some ''Morning Run''),
         session_row ''s4'' ''alice'' None],
      WorkoutExercises =
        [exercise_row ''e2'' ''s2'' ''bob'' ''Bench Press'',
         exercise_row ''e3'' ''s3'' ''alice'' ''Running'']\<rparr>"
    unfolding e s by (simp add: example_defs)
  finally show ?thesis using own inv rd r by simp
qed

theorem deleteWorkoutSession_unreadable:
  "owns_session heavy_db (user_id alice) ''s1'' \<and> exercises_follow_owner heavy_db \<and>
   deleteWorkoutSession_handler \<lparr>in_id = ''s1''\<rparr> (signed_in alice) example_env heavy_db =
     (Inl RangeError, heavy_db)"
  by (simp add: owns_session_def exercises_follow_owner_def deleteWorkoutSession_handler_def
      requireUser_signed_in getSessionForUser_def select_sessions_def session_readable_def
      safe_integer_def example_defs)

subsection \<open>Updating a session\<close>

text \<open>
  C4. When the caller owns no session with the given id, \<^verbatim>\<open>updateWorkoutSession\<close>
  fails with \<open>NOT_FOUND\<close> and returns the store it was given.
\<close>

theorem updateWorkoutSession_not_found:
  "\<not> owns_session db (user_id u) (ui_id input) \<Longrightarrow>
   updateWorkoutSession_handler input (signed_in u) env db =
     (Inl (ActionError NOT_FOUND ''Workout session not found.''), db)"
  by (simp add: updateWorkoutSession_handler_def requireUser_signed_in getSessionForUser_absent)

theorem updateWorkoutSession_not_found_witness:
  "\<not> owns_session example_db (user_id alice) ''s2'' \<and>
   updateWorkoutSession_handler
     \<lparr>ui_id = ''s2'', ui_title = Some ''Taken over'', ui_workoutDate = None, ui_startTime = None,
      ui_endTime = None, ui_workoutType = None, ui_notes = None,
      ui_totalDurationMinutes = None, ui_totalCalories = None\<rparr>
     (signed_in alice) example_env example_db =
     (Inl (ActionError NOT_FOUND ''Workout session not found.''), example_db)"
proof -
  have absent: "\<not> owns_session example_db (user_id alice) ''s2''"
    by (simp add: owns_session_def example_defs)
  show ?thesis
    using absent
      updateWorkoutSession_not_found [of example_db alice
        "\<lparr>ui_id = ''s2'', ui_title = Some ''Taken over'', ui_workoutDate = None,
          ui_startTime = None, ui_endTime = None, ui_workoutType = None, ui_notes = None,
          ui_totalDurationMinutes = None, ui_totalCalories = None\<rparr>" example_env]
    by simp
qed

text \<open>
  C5. For a session the caller owns (ids being unique in the table) that can be
  decoded before the update and is handed back intact after it,
  \<^verbatim>\<open>updateWorkoutSession\<close> rewrites that row alone: \<open>updatedAt\<close> becomes the current
  time, each of the eight optional columns takes the input's value when the input has
  one and keeps its own otherwise, and \<open>id\<close>, \<open>userId\<close> and \<open>createdAt\<close> stay. With no
  optional field in the input the new row is the old one with \<open>updatedAt\<close> refreshed.
  The record returned is the row as stored after the update. An input that writes an
  integer of \<open>2^53\<close> or more is applied and then fails in the read-back.
\<close>

theorem updateWorkoutSession_partial:
  assumes "distinct (session_ids db)" and "s \<in> set (WorkoutSessions db)"
    and "s_id s = ui_id input" and "s_userId s = user_id u"
    and "session_readable s" and "session_intact (session_updateData input (new_Date env) s)"
  shows "\<exists>s' db'.
     updateWorkoutSession_handler input (signed_in u) env db = (Inr (Some s'), db')
     \<and> db' = db\<lparr>WorkoutSessions := map (\<lambda>x. if x = s then s' else x) (WorkoutSessions db)\<rparr>
     \<and> getSessionForUser (ui_id input) (user_id u) db' = Inr s'
     \<and> s_updatedAt s' = new_Date env
     \<and> s_id s' = s_id s \<and> s_userId s' = s_userId s \<and> s_createdAt s' = s_createdAt s
     \<and> s_title s' = (case ui_title input of None \<Rightarrow> s_title s | Some v \<Rightarrow> Some v)
     \<and> s_workoutDate s' = (case ui_workoutDate input of None \<Rightarrow> s_workoutDate s | Some v \<Rightarrow> v)
     \<and> s_startTime s' = (case ui_startTime input of None \<Rightarrow> s_startTime s | Some v \<Rightarrow> Some v)
     \<and> s_endTime s' = (case ui_endTime input of None \<Rightarrow> s_endTime s | Some v \<Rightarrow> Some v)
     \<and> s_workoutType s' = (case ui_workoutType input of None \<Rightarrow> s_workoutType s | Some v \<Rightarrow> Some v)
     \<and> s_notes s' = (case ui_notes input of None \<Rightarrow> s_notes s | Some v \<Rightarrow> Some v)
     \<and> s_totalDurationMinutes s' =
         (case ui_totalDurationMinutes input of None \<Rightarrow> s_totalDurationMinutes s | Some v \<Rightarrow> Some v)
     \<and> s_totalCalories s' =
         (case ui_totalCalories input of None \<Rightarrow> s_totalCalories s | Some v \<Rightarrow> Some v)
     \<and> (ui_title input = None \<and> ui_workoutDate input = None \<and> ui_startTime input = None
         \<and> ui_endTime input = None \<and> ui_workoutType input = None \<and> ui_notes input = None
         \<and> ui_totalDurationMinutes input = None \<and> ui_totalCalories input = None
         \<longrightarrow> s' = s\<lparr>s_updatedAt := new_Date env\<rparr>)"
proof -
  let ?p = "\<lambda>x. s_id x = ui_id input \<and> s_userId x = user_id u"
  let ?d = "session_updateData input (new_Date env)"
  let ?rows = "map (\<lambda>x. if ?p x then ?d x else x) (WorkoutSessions db)"
  have dist: "distinct (map s_id (WorkoutSessions db))"
    using assms(1) by (simp add: session_ids_def)
  have key: "\<And>y. ?p y \<longleftrightarrow> s_id y = s_id s \<and> s_userId y = user_id u"
    using assms(3) by simp
  have found: "filter ?p (WorkoutSessions db) = [s]"
    by (rule filter_distinct_single [OF dist assms(2) key assms(4)])
  then have get: "getSessionForUser (ui_id input) (user_id u) db = Inr (session_read s)"
    using assms(5) by (simp add: getSessionForUser_def select_sessions_def)
  have rows: "?rows = map (\<lambda>x. if x = s then ?d s else x) (WorkoutSessions db)"
    by (rule map_update_distinct [OF dist assms(2) key assms(4)])
  have "filter ?p ?rows = map ?d (filter ?p (WorkoutSessions db))"
    by (rule filter_map_update) (simp add: session_updateData_key)
  then have after: "filter ?p ?rows = [?d s]"
    by (simp only: found list.map)
  have sel: "select_sessions ?p (db\<lparr>WorkoutSessions := ?rows\<rparr>) = Inr [?d s]"
    using assms(6) by (simp add: select_sessions_def after session_intact_def)
  have "updateWorkoutSession_handler input (signed_in u) env db =
      (Inr (Some (?d s)), db\<lparr>WorkoutSessions := ?rows\<rparr>)"
    by (simp add: updateWorkoutSession_handler_def requireUser_signed_in get Let_def
        update_sessions_def sel)
  then have run: "updateWorkoutSession_handler input (signed_in u) env db =
      (Inr (Some (?d s)), db\<lparr>WorkoutSessions := map (\<lambda>x. if x = s then ?d s else x) (WorkoutSessions db)\<rparr>)"
    by (simp only: rows)
  have "getSessionForUser (ui_id input) (user_id u) (db\<lparr>WorkoutSessions := ?rows\<rparr>) = Inr (?d s)"
    by (simp add: getSessionForUser_def sel)
  then have stored: "getSessionForUser (ui_id input) (user_id u)
      (db\<lparr>WorkoutSessions := map (\<lambda>x. if x = s then ?d s else x) (WorkoutSessions db)\<rparr>) = Inr (?d s)"
    by (simp only: rows)
  have fields: "s_updatedAt (?d s) = new_Date env" "s_id (?d s) = s_id s"
    "s_userId (?d s) = s_userId s" "s_createdAt (?d s) = s_createdAt s"
    "s_title (?d s) = (case ui_title input of None \<Rightarrow> s_title s | Some v \<Rightarrow> Some v)"
    "s_workoutDate (?d s) = (case ui_workoutDate input of None \<Rightarrow> s_workoutDate s | Some v \<Rightarrow> v)"
    "s_startTime (?d s) = (case ui_startTime input of None \<Rightarrow> s_startTime s | Some v \<Rightarrow> Some v)"
    "s_endTime (?d s) = (case ui_endTime input of None \<Rightarrow> s_endTime s | Some v \<Rightarrow> Some v)"
    "s_workoutType (?d s) = (case ui_workoutType input of None \<Rightarrow> s_workoutType s | Some v \<Rightarrow> Some v)"
    "s_notes (?d s) = (case ui_notes input of None \<Rightarrow> s_notes s | Some v \<Rightarrow> Some v)"
    "s_totalDurationMinutes (?d s) =
       (case ui_totalDurationMinutes input of None \<Rightarrow> s_totalDurationMinutes s | Some v \<Rightarrow> Some v)"
    "s_totalCalories (?d s) =
       (case ui_totalCalories input of None \<Rightarrow> s_totalCalories s | Some v \<Rightarrow> Some v)"
    by (simp_all add: session_updateData_def)
  have empty: "ui_title input = None \<and> ui_workoutDate input = None \<and> ui_startTime input = None
         \<and> ui_endTime input = None \<and> ui_workoutType input = None \<and> ui_notes input = None
         \<and> ui_totalDurationMinutes input = None \<and> ui_totalCalories input = None
         \<longrightarrow> ?d s = s\<lparr>s_updatedAt := new_Date env\<rparr>"
    by (simp add: session_updateData_def)
  show ?thesis
    using run stored fields empty by blast
qed

theorem updateWorkoutSession_partial_witness:
  "distinct (session_ids example_db) \<and>
   session_row ''s1'' ''alice'' (Some ''Push Day'') \<in> set (WorkoutSessions example_db) \<and>
   updateWorkoutSession_handler
     \<lparr>ui_id = ''s1'', ui_title = None, ui_workoutDate = None, ui_startTime = None,
      ui_endTime = None, ui_workoutType = None, ui_notes = None,
      ui_totalDurationMinutes = None, ui_totalCalories = None\<rparr>
     (signed_in alice) example_env example_db =
     (Inr (Some ((session_row ''s1'' ''alice'' (Some ''Push Day''))\<lparr>s_updatedAt := 2000\<rparr>)),
      example_db\<lparr>WorkoutSessions :=
        [(session_row ''s1'' ''alice'' (Some ''Push Day''))\<lparr>s_updatedAt := 2000\<rparr>,
         session_row ''s2'' ''bob'' None,
         session_row ''s3'' ''alice'' (Some ''Morning Run''),
         session_row ''s4'' ''alice'' None]\<rparr>)"
proof -
  let ?input = "\<lparr>ui_id = ''s1'', ui_title = None, ui_workoutDate = None, ui_startTime = None,
      ui_endTime = None, ui_workoutType = None, ui_notes = None,
      ui_totalDurationMinutes = None, ui_totalCalories = None\<rparr>"
  let ?s = "session_row ''s1'' ''alice'' (Some ''Push Day'')"
  have d: "distinct (session_ids example_db)"
    by (simp add: session_ids_def example_defs)
  have m: "?s \<in> set (WorkoutSessions example_db)"
    by (simp add: example_defs)
  have i: "s_id ?s = ui_id ?input" and o: "s_userId ?s = user_id alice"
    by (simp_all add: example_defs)
  have rd: "session_readable ?s"
    by (simp add: session_readable_def example_defs)
  have it: "session_intact (session_updateData ?input (new_Date example_env) ?s)"
    by (simp add: session_intact_def session_readable_def session_read_def text_read_def
        session_updateData_def example_defs)
  from updateWorkoutSession_partial [OF d m i o rd it]
  obtain s' db' where
    r: "updateWorkoutSession_handler ?input (signed_in alice) example_env example_db =
         (Inr (Some s'), db')"
    and st: "db' = example_db\<lparr>WorkoutSessions :=
         map (\<lambda>x. if x = ?s then s' else x) (WorkoutSessions example_db)\<rparr>"
    and e: "s' = ?s\<lparr>s_updatedAt := new_Date example_env\<rparr>"
    by auto
  have e': "s' = ?s\<lparr>s_updatedAt := 2000\<rparr>"
    using e by (simp add: example_defs)
  have "map (\<lambda>x. if x = ?s then s' else x) (WorkoutSessions example_db) =
        [s', session_row ''s2'' ''bob'' None,
         session_row ''s3'' ''alice'' (Some ''Morning Run''),
         session_row ''s4'' ''alice'' None]"
    by (simp add: example_defs)
  with r st e' d m show ?thesis by simp
qed

theorem updateWorkoutSession_unreadable:
  "updateWorkoutSession_input
     \<lparr>ur_id = Some ''s1'', ur_title = None, ur_workoutDate = None, ur_startTime = None,
      ur_endTime = None, ur_workoutType = None, ur_notes = None,
      ur_totalDurationMinutes = None, ur_totalCalories = Some 9007199254740992\<rparr> =
     Some (example_update\<lparr>ui_title := None, ui_totalDurationMinutes := None,
             ui_totalCalories := Some 9007199254740992\<rparr>) \<and>
   updateWorkoutSession_handler
     (example_update\<lparr>ui_title := None, ui_totalDurationMinutes := None,
        ui_totalCalories := Some 9007199254740992\<rparr>)
     (signed_in alice) example_env example_db =
     (Inl RangeError,
      example_db\<lparr>WorkoutSessions :=
        [(session_row ''s1'' ''alice'' (Some ''Push Day''))
           \<lparr>s_totalCalories := Some 9007199254740992, s_updatedAt := 2000\<rparr>,
         session_row ''s2'' ''bob'' None,
         session_row ''s3'' ''alice'' (Some ''Morning Run''),
         session_row ''s4'' ''alice'' None]\<rparr>)"
  by (simp add: updateWorkoutSession_input_def updateWorkoutSession_handler_def
      requireUser_signed_in getSessionForUser_def select_sessions_def update_sessions_def
      session_updateData_def session_readable_def safe_integer_def example_update_def
      example_defs)

subsection \<open>Creating a session\<close>



subsection \<open>Listing sessions\<close>

text \<open>
  C6. For a signed-in caller, \<open>page\<close> and \<open>pageSize\<close> as the schema admits them with
  an offset \<open>(page - 1) * pageSize\<close> below \<open>2^53\<close>, and a page whose rows are handed
  back intact, \<^verbatim>\<open>listMyWorkoutSessions\<close> returns the caller's sessions from that
  offset on, at most \<open>pageSize\<close> of them, and echoes \<open>page\<close> and \<open>pageSize\<close>. With
  three sessions of the caller, page 2 of size 1 is the second one. A page so large
  that the offset is no 64-bit integer is refused by the store.
\<close>

theorem listMyWorkoutSessions_page:
  assumes "1 \<le> li_page input" and "1 \<le> li_pageSize input" and "li_pageSize input \<le> 100"
    and "(li_page input - 1) * li_pageSize input < 2 ^ 53"
    and "list_all session_intact
           (take (nat (li_pageSize input))
              (drop (nat ((li_page input - 1) * li_pageSize input))
                 (filter (\<lambda>s. s_userId s = user_id u) (WorkoutSessions db))))"
  shows "\<exists>d. listMyWorkoutSessions_handler input (signed_in u) env db = (Inr d, db)
     \<and> page d = li_page input \<and> pageSize d = li_pageSize input
     \<and> items d = take (nat (li_pageSize input))
         (drop (nat ((li_page input - 1) * li_pageSize input))
            (filter (\<lambda>s. s_userId s = user_id u) (WorkoutSessions db)))
     \<and> int (length (items d)) \<le> li_pageSize input
     \<and> (\<forall>k < length (items d).
           items d ! k =
             filter (\<lambda>s. s_userId s = user_id u) (WorkoutSessions db)
               ! (nat ((li_page input - 1) * li_pageSize input) + k))
     \<and> (\<forall>a b c. filter (\<lambda>s. s_userId s = user_id u) (WorkoutSessions db) = [a, b, c]
           \<and> li_page input = 2 \<and> li_pageSize input = 1 \<longrightarrow> items d = [b])"
proof -
  let ?k = "(li_page input - 1) * li_pageSize input"
  have "li_page input - 1 \<le> ?k"
    using assms(1,2) mult_left_mono [of 1 "li_pageSize input" "li_page input - 1"] by simp
  with assms(1,4) have p: "js_number (li_page input - 1) = li_page input - 1"
    by (intro js_number_safe) simp
  have k: "js_number ?k = ?k" and k0: "0 \<le> ?k"
    using assms(1,2,4) by (simp_all add: js_number_safe)
  have small: "\<not> (2 ^ 63 \<le> \<bar>li_pageSize input\<bar> \<or> 2 ^ 63 \<le> \<bar>?k\<bar>)"
    using assms(2,3,4) k0 by simp
  have neg: "\<not> li_pageSize input < 0"
    using assms(2) by simp
  have run: "listMyWorkoutSessions_handler input (signed_in u) env db =
      (Inr \<lparr>items = take (nat (li_pageSize input))
                (drop (nat ?k) (filter (\<lambda>s. s_userId s = user_id u) (WorkoutSessions db))),
            total = int (length (take (nat (li_pageSize input))
                (drop (nat ?k) (filter (\<lambda>s. s_userId s = user_id u) (WorkoutSessions db))))),
            page = li_page input, pageSize = li_pageSize input\<rparr>, db)"
    using small neg map_intact [OF assms(5)] all_intact_readable [OF assms(5)]
    by (simp add: listMyWorkoutSessions_handler_def requireUser_signed_in p k
        select_sessions_page_def Let_def)
  show ?thesis
    unfolding run using assms(1,2) by auto
qed

theorem listMyWorkoutSessions_page_witness:
  "1 \<le> li_page \<lparr>li_page = 2, li_pageSize = 1\<rparr> \<and> 1 \<le> li_pageSize \<lparr>li_page = 2, li_pageSize = 1\<rparr> \<and>
   length (filter (\<lambda>s. s_userId s = user_id alice) (WorkoutSessions example_db)) = 3 \<and>
   (\<exists>d. listMyWorkoutSessions_handler \<lparr>li_page = 2, li_pageSize = 1\<rparr> (signed_in alice)
           example_env example_db = (Inr d, example_db)
      \<and> items d = [session_row ''s3'' ''alice'' (Some ''Morning Run'')]
      \<and> page d = 2 \<and> pageSize d = 1)"
proof -
  let ?input = "\<lparr>li_page = 2, li_pageSize = 1\<rparr>"
  have p: "1 \<le> li_page ?input" and n: "1 \<le> li_pageSize ?input"
    and m: "li_pageSize ?input \<le> 100"
    and k: "(li_page ?input - 1) * li_pageSize ?input < 2 ^ 53"
    by simp_all
  have own: "filter (\<lambda>s. s_userId s = user_id alice) (WorkoutSessions example_db) =
      [session_row ''s1'' ''alice'' (Some ''Push Day''),
       session_row ''s3'' ''alice'' (Some ''Morning Run''),
       session_row ''s4'' ''alice'' None]"
    by (simp add: example_defs)
  have it: "list_all session_intact
           (take (nat (li_pageSize ?input))
              (drop (nat ((li_page ?input - 1) * li_pageSize ?input))
                 (filter (\<lambda>s. s_userId s = user_id alice) (WorkoutSessions example_db))))"
    unfolding own
    by (simp add: session_intact_def session_readable_def session_read_def text_read_def
        example_defs)
  from listMyWorkoutSessions_page [OF p n m k it, of example_env]
  obtain d where
    "listMyWorkoutSessions_handler ?input (signed_in alice) example_env example_db =
       (Inr d, example_db)"
    and "page d = 2" "pageSize d = 1"
    and "items d = [session_row ''s3'' ''alice'' (Some ''Morning Run'')]"
    unfolding own by auto
  with p n own show ?thesis by simp
qed

theorem listMyWorkoutSessions_offset_refused:
  "listMyWorkoutSessions_input \<lparr>lr_page = Some (100000000000000000), lr_pageSize = Some 100\<rparr> =
     Some \<lparr>li_page = 100000000000000000, li_pageSize = 100\<rparr> \<and>
   listMyWorkoutSessions_handler \<lparr>li_page = 100000000000000000, li_pageSize = 100\<rparr> (signed_in alice)
       example_env example_db = (Inl MismatchError, example_db)"
  by (simp add: listMyWorkoutSessions_input_def listMyWorkoutSessions_handler_def
      requireUser_signed_in js_number_page js_number_offset select_sessions_page_def)

text \<open>
  C7. Whenever \<^verbatim>\<open>listMyWorkoutSessions\<close> returns, its \<open>total\<close> is the number of
  items on the returned page. The witness is a page of one item for a caller with three
  sessions.
\<close>

theorem listMyWorkoutSessions_total:
  "listMyWorkoutSessions_handler input context env db = (Inr d, db') \<Longrightarrow>
   total d = int (length (items d))"
  by (auto simp: listMyWorkoutSessions_handler_def Let_def split: sum.splits)

theorem listMyWorkoutSessions_total_witness:
  "length (filter (\<lambda>s. s_userId s = user_id alice) (WorkoutSessions example_db)) = 3 \<and>
   listMyWorkoutSessions_handler \<lparr>li_page = 2, li_pageSize = 1\<rparr> (signed_in alice)
       example_env example_db =
     (Inr \<lparr>items = [session_row ''s3'' ''alice'' (Some ''Morning Run'')], total = 1, page = 2,
          pageSize = 1\<rparr>, example_db) \<and>
   total \<lparr>items = [session_row ''s3'' ''alice'' (Some ''Morning Run'')], total = 1, page = 2,
          pageSize = 1\<rparr> =
     int (length (items \<lparr>items = [session_row ''s3'' ''alice'' (Some ''Morning Run'')],
          total = 1, page = 2, pageSize = 1\<rparr>))"
proof -
  have n: "length (filter (\<lambda>s. s_userId s = user_id alice) (WorkoutSessions example_db)) = 3"
    by (simp add: example_defs)
  have r: "listMyWorkoutSessions_handler \<lparr>li_page = 2, li_pageSize = 1\<rparr> (signed_in alice)
       example_env example_db =
     (Inr \<lparr>items = [session_row ''s3'' ''alice'' (Some ''Morning Run'')], total = 1, page = 2,
          pageSize = 1\<rparr>, example_db)"
    by (simp add: listMyWorkoutSessions_handler_def requireUser_signed_in js_number_def
        select_sessions_page_def session_readable_def session_read_def text_read_def
        example_defs)
  from n r listMyWorkoutSessions_total [OF r] show ?thesis by simp
qed

subsection \<open>Upserting an exercise\<close>

text \<open>
  C8. For a signed-in caller who owns the session named by \<open>sessionId\<close> (its rows
  decodable) and an input without \<open>id\<close>: when \<^verbatim>\<open>randomUUID()\<close> yields the id of a
  stored exercise, the primary key refuses the insert and the store stays as it was;
  otherwise \<^verbatim>\<open>upsertWorkoutExercise\<close> appends and returns a new exercise with the
  generated id, the caller as \<open>userId\<close>, the current time as \<open>createdAt\<close> and the
  input's values in every other column. Whenever it returns a record, that record is one
  appended row whose id no stored exercise had. Nothing in the handler looks at the rows
  already stored under the same \<open>name\<close> and \<open>sessionId\<close>.
\<close>

theorem upsertWorkoutExercise_insert:
  assumes "owns_session db (user_id u) (xi_sessionId input)"
    and "sessions_readable db (user_id u) (xi_sessionId input)"
    and "xi_id input = None"
  shows "(randomUUID env \<in> set (exercise_ids db) \<longrightarrow>
       upsertWorkoutExercise_handler input (signed_in u) env db = (Inl ConstraintError, db))
   \<and> (randomUUID env \<notin> set (exercise_ids db) \<longrightarrow>
       (\<exists>exercise.
          upsertWorkoutExercise_handler input (signed_in u) env db =
            (Inr (Some exercise), db\<lparr>WorkoutExercises := WorkoutExercises db @ [exercise]\<rparr>)
        \<and> e_id exercise = randomUUID env
        \<and> e_userId exercise = user_id u
        \<and> e_createdAt exercise = new_Date env
        \<and> e_sessionId exercise = xi_sessionId input
        \<and> e_name exercise = xi_name input
        \<and> e_category exercise = xi_category input
        \<and> e_sets exercise = xi_sets input
        \<and> e_repsPerSet exercise = xi_repsPerSet input
        \<and> e_weightPerRep exercise = xi_weightPerRep input
        \<and> e_distanceKm exercise = xi_distanceKm input
        \<and> e_durationMinutes exercise = xi_durationMinutes input
        \<and> e_caloriesBurned exercise = xi_caloriesBurned input
        \<and> e_notes exercise = xi_notes input))
   \<and> (\<forall>r db'. upsertWorkoutExercise_handler input (signed_in u) env db = (Inr r, db') \<longrightarrow>
       (\<exists>exercise. r = Some exercise
        \<and> e_id exercise \<notin> set (exercise_ids db)
        \<and> db' = db\<lparr>WorkoutExercises := WorkoutExercises db @ [exercise]\<rparr>))"
proof -
  from assms(1,2) obtain s where
    get: "getSessionForUser (xi_sessionId input) (user_id u) db = Inr s"
    using getSessionForUser_present by blast
  have ref: "xi_sessionId input \<in> set (session_ids db)"
    using assms(1) by (rule owns_session_in_ids)
  show ?thesis
    using assms(3) ref
    by (simp add: upsertWorkoutExercise_handler_def requireUser_signed_in get
        insert_exercise_def Let_def)
qed

theorem upsertWorkoutExercise_insert_witness:
  "owns_session example_db (user_id alice) ''s1'' \<and>
   randomUUID example_env \<notin> set (exercise_ids example_db) \<and>
   exercise_row ''e1'' ''s1'' ''alice'' ''Bench Press'' \<in> set (WorkoutExercises example_db) \<and>
   upsertWorkoutExercise_handler
     \<lparr>xi_id = None, xi_sessionId = ''s1'', xi_name = ''Bench Press'', xi_category = None,
      xi_sets = Some 3, xi_repsPerSet = Some 8, xi_weightPerRep = Some 60, xi_distanceKm = None,
      xi_durationMinutes = None, xi_caloriesBurned = None, xi_notes = None\<rparr>
     (signed_in alice) example_env example_db =
     (Inr (Some ((exercise_row ''u-7'' ''s1'' ''alice'' ''Bench Press'')\<lparr>e_createdAt := 2000\<rparr>)),
      example_db\<lparr>WorkoutExercises := WorkoutExercises example_db @
        [(exercise_row ''u-7'' ''s1'' ''alice'' ''Bench Press'')\<lparr>e_createdAt := 2000\<rparr>]\<rparr>)"
proof -
  let ?input = "\<lparr>xi_id = None, xi_sessionId = ''s1'', xi_name = ''Bench Press'', xi_category = None,
      xi_sets = Some 3, xi_repsPerSet = Some 8, xi_weightPerRep = Some 60, xi_distanceKm = None,
      xi_durationMinutes = None, xi_caloriesBurned = None, xi_notes = None\<rparr>"
  have own: "owns_session example_db (user_id alice) (xi_sessionId ?input)"
    by (simp add: owns_session_def example_defs)
  have rd: "sessions_readable example_db (user_id alice) (xi_sessionId ?input)"
    by (simp add: sessions_readable_def session_readable_def example_defs)
  have noid: "xi_id ?input = None"
    by simp
  have fresh: "randomUUID example_env \<notin> set (exercise_ids example_db)"
    by (simp add: exercise_ids_def example_defs)
  have dup: "exercise_row ''e1'' ''s1'' ''alice'' ''Bench Press'' \<in> set (WorkoutExercises example_db)"
    by (simp add: example_defs)
  from upsertWorkoutExercise_insert [OF own rd noid, of example_env] fresh
  obtain exercise where
    r: "upsertWorkoutExercise_handler ?input (signed_in alice) example_env example_db =
       (Inr (Some exercise), example_db\<lparr>WorkoutExercises := WorkoutExercises example_db @ [exercise]\<rparr>)"
    and f: "e_id exercise = randomUUID example_env" "e_userId exercise = user_id alice"
     "e_createdAt exercise = new_Date example_env"
     "e_sessionId exercise = xi_sessionId ?input"
     "e_name exercise = xi_name ?input"
     "e_category exercise = xi_category ?input"
     "e_sets exercise = xi_sets ?input"
     "e_repsPerSet exercise = xi_repsPerSet ?input"
     "e_weightPerRep exercise = xi_weightPerRep ?input"
     "e_distanceKm exercise = xi_distanceKm ?input"
     "e_durationMinutes exercise = xi_durationMinutes ?input"
     "e_caloriesBurned exercise = xi_caloriesBurned ?input"
     "e_notes exercise = xi_notes ?input"
    by blast
  have "exercise = (exercise_row ''u-7'' ''s1'' ''alice'' ''Bench Press'')\<lparr>e_createdAt := 2000\<rparr>"
    using f by (cases exercise) (simp add: example_defs)
  with r own fresh dup show ?thesis by simp
qed

theorem upsertWorkoutExercise_collision:
  "upsertWorkoutExercise_input
     \<lparr>xr_id = None, xr_sessionId = Some ''s1'', xr_name = Some ''Bench Press'',
      xr_category = None, xr_sets = Some 3, xr_repsPerSet = Some 8, xr_weightPerRep = Some 60,
      xr_distanceKm = None, xr_durationMinutes = None, xr_caloriesBurned = None,
      xr_notes = None\<rparr> = Some example_upsert \<and>
   owns_session example_db (user_id alice) (xi_sessionId example_upsert) \<and>
   xi_id example_upsert = None \<and>
   upsertWorkoutExercise_handler example_upsert (signed_in alice) colliding_env example_db =
     (Inl ConstraintError, example_db)"
  by (simp add: upsertWorkoutExercise_input_def owns_session_def
      upsertWorkoutExercise_handler_def requireUser_signed_in getSessionForUser_def
      select_sessions_def session_readable_def session_read_def text_read_def
      insert_exercise_def exercise_ids_def example_upsert_def example_defs)




subsection \<open>Lookups by id are scoped by the caller\<close>



subsection \<open>Input validation comes first\<close>

text \<open>
  C10. In each of the seven actions an input that its schema rejects fails with the
  invalid-input error whatever the context, so also when no user is signed in and the
  handler would have thrown \<open>UNAUTHORIZED\<close>; the store is left as it was.
\<close>

theorem input_checked_before_caller:
  "(createWorkoutSession_input c = None \<longrightarrow>
      createWorkoutSession c context env db = (Inl ActionInputError, db))
   \<and> (updateWorkoutSession_input r = None \<longrightarrow>
      updateWorkoutSession r context env db = (Inl ActionInputError, db))
   \<and> (id_input i = None \<longrightarrow>
      deleteWorkoutSession i context env db = (Inl ActionInputError, db)
      \<and> getWorkoutSessionWithExercises i context env db = (Inl ActionInputError, db)
      \<and> deleteWorkoutExercise i context env db = (Inl ActionInputError, db))
   \<and> (listMyWorkoutSessions_input l = None \<longrightarrow>
      listMyWorkoutSessions l context env db = (Inl ActionInputError, db))
   \<and> (upsertWorkoutExercise_input x = None \<longrightarrow>
      upsertWorkoutExercise x context env db = (Inl ActionInputError, db))"
  by (simp add: defineAction_def createWorkoutSession_def updateWorkoutSession_def
      deleteWorkoutSession_def getWorkoutSessionWithExercises_def deleteWorkoutExercise_def
      listMyWorkoutSessions_def upsertWorkoutExercise_def)

theorem input_checked_before_caller_witness:
  "requireUser anonymous =
     Inl (ActionError UNAUTHORIZED ''You must be signed in to perform this action.'') \<and>
   createWorkoutSession bad_create anonymous example_env example_db =
     (Inl ActionInputError, example_db) \<and>
   updateWorkoutSession bad_update anonymous example_env example_db =
     (Inl ActionInputError, example_db) \<and>
   deleteWorkoutSession \<lparr>ir_id = None\<rparr> anonymous example_env example_db =
     (Inl ActionInputError, example_db) \<and>
   getWorkoutSessionWithExercises \<lparr>ir_id = None\<rparr> anonymous example_env example_db =
     (Inl ActionInputError, example_db) \<and>
   deleteWorkoutExercise \<lparr>ir_id = None\<rparr> anonymous example_env example_db =
     (Inl ActionInputError, example_db) \<and>
   listMyWorkoutSessions \<lparr>lr_page = Some 0, lr_pageSize = Some 101\<rparr> anonymous example_env example_db =
     (Inl ActionInputError, example_db) \<and>
   upsertWorkoutExercise bad_upsert anonymous example_env example_db =
     (Inl ActionInputError, example_db)"
proof -
  have anon: "requireUser anonymous =
     Inl (ActionError UNAUTHORIZED ''You must be signed in to perform this action.'')"
    by (simp add: requireUser_def bad_defs)
  have c: "createWorkoutSession_input bad_create = None"
    by (simp add: createWorkoutSession_input_def bad_defs)
  have r: "updateWorkoutSession_input bad_update = None"
    by (simp add: updateWorkoutSession_input_def bad_defs)
  have i: "id_input \<lparr>ir_id = None\<rparr> = None"
    by (simp add: id_input_def)
  have l: "listMyWorkoutSessions_input \<lparr>lr_page = Some 0, lr_pageSize = Some 101\<rparr> = None"
    by (simp add: listMyWorkoutSessions_input_def)
  have x: "upsertWorkoutExercise_input bad_upsert = None"
    by (simp add: upsertWorkoutExercise_input_def bad_defs)
  show ?thesis
    using anon c r i l x
      input_checked_before_caller [of bad_create anonymous example_env example_db bad_update
        "\<lparr>ir_id = None\<rparr>" "\<lparr>lr_page = Some 0, lr_pageSize = Some 101\<rparr>" bad_upsert]
    by blast
qed

end
